theory Spec2Isabelle
  imports Main "HOL-Library.AList"
begin

section \<open>pytkdocs.loader: loading documentation from live Python objects\<close>

text \<open>
  A shallow embedding of \<^verbatim>\<open>src/pytkdocs/loader.py\<close>. Live Python objects are opaque
  handles of a type \<open>'o\<close>; everything the loader asks of the interpreter (\<^verbatim>\<open>importlib\<close>,
  \<^verbatim>\<open>inspect\<close>, \<^verbatim>\<open>getattr\<close>, \<^verbatim>\<open>re\<close>, and the attribute parsers of
  \<^verbatim>\<open>pytkdocs.parsers.attributes\<close>) is a field of the record \<open>world\<close>. An exception is
  a value \<open>Exn type message\<close>; a call that may raise returns \<open>exn + 'a\<close> with the
  exception on the left.
\<close>

subsection \<open>Exceptions and strings\<close>

datatype exc_type =
  ValueError | ImportError | AttributeError | TypeError | KeyError | OSError | IndexError
  | RecursionError

datatype exn = Exn (exc_type: exc_type) (exc_str: string)

text \<open>Sequencing of calls that may raise: the first exception propagates.\<close>

definition bind :: "exn + 'a \<Rightarrow> ('a \<Rightarrow> exn + 'b) \<Rightarrow> exn + 'b" where
  "bind m f = (case m of Inl e \<Rightarrow> Inl e | Inr x \<Rightarrow> f x)"

text \<open>A \<^verbatim>\<open>for\<close> loop whose body may raise, threading the loop's state.\<close>

fun for_each :: "('a \<Rightarrow> 's \<Rightarrow> exn + 's) \<Rightarrow> 'a list \<Rightarrow> 's \<Rightarrow> exn + 's" where
  "for_each body [] s = Inr s"
| "for_each body (x # xs) s = bind (body x s) (for_each body xs)"

text \<open>\<^verbatim>\<open>"." .join(parts)\<close> and \<^verbatim>\<open>path.split(".")\<close>.\<close>

fun join_dot :: "string list \<Rightarrow> string" where
  "join_dot [] = []"
| "join_dot [x] = x"
| "join_dot (x # y # ys) = x @ CHR ''.'' # join_dot (y # ys)"

fun split_dot :: "string \<Rightarrow> string list" where
  "split_dot [] = [[]]"
| "split_dot (c # cs) =
     (if c = CHR ''.'' then [] # split_dot cs
      else (case split_dot cs of [] \<Rightarrow> [[c]] | x # xs \<Rightarrow> (c # x) # xs))"

text \<open>A name between single quotes, as the f-strings of the loader write \<^verbatim>\<open>'{path}'\<close>.\<close>

definition quoted :: "string \<Rightarrow> string" where
  "quoted s = CHR 0x27 # s @ [CHR 0x27]"

subsection \<open>Python dictionaries, in insertion order\<close>

text \<open>
  A \<^verbatim>\<open>dict\<close> is an association list in insertion order; \<open>AList.update\<close> keeps the place
  of a key that is already present and appends a new one, as an assignment
  \<^verbatim>\<open>d[k] = v\<close> does.
\<close>

definition dict_keys :: "('k \<times> 'v) list \<Rightarrow> 'k list" where
  "dict_keys d = map fst d"

definition dict_update :: "('k \<times> 'v) list \<Rightarrow> ('k \<times> 'v) list \<Rightarrow> ('k \<times> 'v) list" where
  "dict_update d extra = foldl (\<lambda>acc kv. AList.update (fst kv) (snd kv) acc) d extra"

definition dict_of :: "('k \<times> 'v) list \<Rightarrow> ('k \<times> 'v) list" where
  "dict_of pairs = dict_update [] pairs"

subsection \<open>The interpreter as seen by the loader\<close>

text \<open>
  The value of one entry of a declared-attribute map: a dictionary with the keys
  \<^verbatim>\<open>"docstring"\<close> and \<^verbatim>\<open>"annotation"\<close>. \<open>None\<close> is an absent key; a present key
  holds an optional value (Python's \<^verbatim>\<open>None\<close> or a value).
\<close>

record 'o attribute_data =
  ad_docstring :: "string option option"
  ad_annotation :: "'o option option"

record 'o world =
  \<comment> \<open>\<^verbatim>\<open>importlib.import_module(name)\<close>\<close>
  importlib_import_module :: "string \<Rightarrow> exn + 'o"
  \<comment> \<open>\<^verbatim>\<open>getattr(obj, name)\<close>\<close>
  getattr :: "'o \<Rightarrow> string \<Rightarrow> exn + 'o"
  \<comment> \<open>\<^verbatim>\<open>inspect.unwrap(obj)\<close>, the object itself when unwrapping raises\<close>
  inspect_unwrap :: "'o \<Rightarrow> 'o"
  \<comment> \<open>\<^verbatim>\<open>obj.__name__\<close>, \<^verbatim>\<open>obj.__dict__\<close>, \<^verbatim>\<open>obj.__mro__\<close>, \<^verbatim>\<open>obj.__doc__\<close>\<close>
  dunder_name :: "'o \<Rightarrow> string"
  dunder_dict :: "'o \<Rightarrow> (string \<times> 'o) list"
  dunder_mro :: "'o \<Rightarrow> 'o list"
  dunder_doc :: "'o \<Rightarrow> string option"
  \<comment> \<open>\<^verbatim>\<open>inspect.getmodule\<close>, \<^verbatim>\<open>inspect.getabsfile\<close>\<close>
  inspect_getmodule :: "'o \<Rightarrow> 'o option"
  inspect_getabsfile :: "'o \<Rightarrow> exn + string"
  \<comment> \<open>the classification predicates of \<^verbatim>\<open>inspect\<close> and \<^verbatim>\<open>isinstance\<close>\<close>
  inspect_ismodule :: "'o \<Rightarrow> bool"
  inspect_isclass :: "'o \<Rightarrow> bool"
  inspect_isfunction :: "'o \<Rightarrow> bool"
  inspect_iscoroutinefunction :: "'o \<Rightarrow> bool"
  isinstance_property :: "'o \<Rightarrow> bool"
  isinstance_staticmethod :: "'o \<Rightarrow> bool"
  isinstance_classmethod :: "'o \<Rightarrow> bool"
  \<comment> \<open>\<^verbatim>\<open>member is type or member is object\<close>\<close>
  is_type_or_object :: "'o \<Rightarrow> bool"
  \<comment> \<open>source text, signatures and docstrings\<close>
  inspect_getsource :: "'o \<Rightarrow> exn + string"
  open_readlines :: "string \<Rightarrow> exn + string list"
  inspect_getsourcelines :: "'o \<Rightarrow> exn + (string list \<times> nat)"
  inspect_signature :: "'o \<Rightarrow> exn + 'o"
  return_annotation :: "'o \<Rightarrow> 'o"
  inspect_getdoc :: "'o \<Rightarrow> string option"
  inspect_cleandoc :: "string \<Rightarrow> string"
  \<comment> \<open>\<^verbatim>\<open>inspect.getmembers(obj)\<close>\<close>
  inspect_getmembers :: "'o \<Rightarrow> (string \<times> 'o) list"
  \<comment> \<open>the names \<^verbatim>\<open>pkgutil.iter_modules(module.__path__)\<close> yields; \<open>None\<close> when
      \<^verbatim>\<open>module.__path__\<close> raises AttributeError\<close>
  pkgutil_iter_modules :: "'o \<Rightarrow> string list option"
  \<comment> \<open>\<^verbatim>\<open>pytkdocs.parsers.attributes\<close>\<close>
  get_module_attributes :: "'o \<Rightarrow> (string \<times> 'o attribute_data) list"
  get_class_attributes :: "'o \<Rightarrow> (string \<times> 'o attribute_data) list"
  get_instance_attributes :: "'o \<Rightarrow> (string \<times> 'o attribute_data) list"
  attributes_merge :: "(string \<times> 'o attribute_data) list \<Rightarrow> (string \<times> 'o attribute_data) list
    \<Rightarrow> (string \<times> 'o attribute_data) list"
  \<comment> \<open>field registries: the items of a registry dictionary, and what the loader reads
      of a pydantic, marshmallow or dataclass field\<close>
  dict_items :: "'o \<Rightarrow> (string \<times> 'o) list"
  field_name :: "'o \<Rightarrow> string"
  field_type :: "'o \<Rightarrow> 'o"
  field_required :: "'o \<Rightarrow> bool"
  field_info_description :: "'o \<Rightarrow> string option"
  pydantic_type :: "'o \<Rightarrow> 'o"
  metadata_description :: "'o \<Rightarrow> string option"
  type_of :: "'o \<Rightarrow> 'o"
  \<comment> \<open>\<^verbatim>\<open>prop.fset\<close> (\<open>None\<close> for Python's \<^verbatim>\<open>None\<close>) and \<^verbatim>\<open>prop.fget\<close>\<close>
  property_fset :: "'o \<Rightarrow> 'o option"
  property_fget :: "'o \<Rightarrow> 'o"
  \<comment> \<open>\<^verbatim>\<open>re.compile(pattern).search(name)\<close>, and \<^verbatim>\<open>RE_SPECIAL.match(name)\<close> of
      \<^verbatim>\<open>pytkdocs.properties\<close>\<close>
  re_search :: "string \<Rightarrow> string \<Rightarrow> bool"
  RE_SPECIAL_match :: "string \<Rightarrow> bool"

subsection \<open>ObjectNode\<close>

text \<open>A backward-linked list: each node has its object, its name and its parent.\<close>

datatype 'o ObjectNode = Node (obj: 'o) (name: string) (parent: "'o ObjectNode option")

text \<open>\<^verbatim>\<open>ObjectNode.__init__\<close>: the object is unwrapped, an exception of the unwrapping is
  swallowed.\<close>

definition ObjectNode_init :: "'o world \<Rightarrow> 'o \<Rightarrow> string \<Rightarrow> 'o ObjectNode option \<Rightarrow> 'o ObjectNode" where
  "ObjectNode_init w ob nm par = Node (inspect_unwrap w ob) nm par"

text \<open>The loop of \<^verbatim>\<open>dotted_path\<close>: the node's name, then the names of its ancestors.\<close>

fun parts :: "'o ObjectNode \<Rightarrow> string list" where
  "parts (Node ob nm None) = [nm]"
| "parts (Node ob nm (Some p)) = nm # parts p"

definition dotted_path :: "'o ObjectNode \<Rightarrow> string" where
  "dotted_path node = join_dot (rev (parts node))"

fun root :: "'o ObjectNode \<Rightarrow> 'o ObjectNode" where
  "root (Node ob nm None) = Node ob nm None"
| "root (Node ob nm (Some p)) = root p"

definition file_path :: "'o world \<Rightarrow> 'o ObjectNode \<Rightarrow> exn + string" where
  "file_path w node = inspect_getabsfile w (obj (root node))"

definition is_module :: "'o world \<Rightarrow> 'o ObjectNode \<Rightarrow> bool" where
  "is_module w node = inspect_ismodule w (obj node)"

definition is_class :: "'o world \<Rightarrow> 'o ObjectNode \<Rightarrow> bool" where
  "is_class w node = inspect_isclass w (obj node)"

definition is_function :: "'o world \<Rightarrow> 'o ObjectNode \<Rightarrow> bool" where
  "is_function w node = inspect_isfunction w (obj node)"

definition is_coroutine_function :: "'o world \<Rightarrow> 'o ObjectNode \<Rightarrow> bool" where
  "is_coroutine_function w node = inspect_iscoroutinefunction w (obj node)"

definition is_property :: "'o world \<Rightarrow> 'o ObjectNode \<Rightarrow> bool" where
  "is_property w node = isinstance_property w (obj node)"

definition parent_is_class :: "'o world \<Rightarrow> 'o ObjectNode \<Rightarrow> bool" where
  "parent_is_class w node = (case parent node of None \<Rightarrow> False | Some p \<Rightarrow> is_class w p)"

text \<open>\<^verbatim>\<open>isinstance(self.obj, type(lambda: 0))\<close> is the test of \<^verbatim>\<open>inspect.isfunction\<close>.\<close>

definition is_method :: "'o world \<Rightarrow> 'o ObjectNode \<Rightarrow> bool" where
  "is_method w node = (parent_is_class w node \<and> inspect_isfunction w (obj node))"

definition is_staticmethod :: "'o world \<Rightarrow> 'o ObjectNode \<Rightarrow> bool" where
  "is_staticmethod w node =
     (case parent node of None \<Rightarrow> False
      | Some p \<Rightarrow> parent_is_class w node \<and>
          (case map_of (dunder_dict w (obj p)) (name node) of
             None \<Rightarrow> False | Some raw \<Rightarrow> isinstance_staticmethod w raw))"

definition is_classmethod :: "'o world \<Rightarrow> 'o ObjectNode \<Rightarrow> bool" where
  "is_classmethod w node =
     (case parent node of None \<Rightarrow> False
      | Some p \<Rightarrow> parent_is_class w node \<and>
          (case map_of (dunder_dict w (obj p)) (name node) of
             None \<Rightarrow> False | Some raw \<Rightarrow> isinstance_classmethod w raw))"

subsection \<open>get_object_tree\<close>

text \<open>
  The \<^verbatim>\<open>while True\<close> loop: import the longest dotted prefix; on ImportError move the
  last segment to the front of \<open>objects\<close> and retry, and raise ImportError when a single
  segment is left. Any other exception of the import propagates.
\<close>

function import_loop :: "'o world \<Rightarrow> string list \<Rightarrow> string list \<Rightarrow> exn + ('o \<times> string list)" where
  "import_loop w obj_parent_modules objects =
     (case importlib_import_module w (join_dot obj_parent_modules) of
        Inr parent_module \<Rightarrow> Inr (parent_module, objects)
      | Inl e \<Rightarrow>
          if exc_type e = ImportError then
            (if length obj_parent_modules = 1 then
               Inl (Exn ImportError (''No module named '' @ quoted (hd obj_parent_modules)))
             else if obj_parent_modules = [] then Inl (Exn IndexError ''pop from empty list'')
             else import_loop w (butlast obj_parent_modules) (last obj_parent_modules # objects))
          else Inl e)"
  by pat_completeness auto
termination
  by (relation "measure (\<lambda>(w, ms, os). length ms)") auto

text \<open>The \<^verbatim>\<open>for obj_name in objects\<close> loop: one node per remaining segment, by
  \<^verbatim>\<open>getattr\<close> on the current node's object; an exception of \<^verbatim>\<open>getattr\<close> propagates.\<close>

fun walk_objects :: "'o world \<Rightarrow> 'o ObjectNode \<Rightarrow> string list \<Rightarrow> exn + 'o ObjectNode" where
  "walk_objects w current_node [] = Inr current_node"
| "walk_objects w current_node (obj_name # objects) =
     bind (getattr w (obj current_node) obj_name)
       (\<lambda>ob. walk_objects w (ObjectNode_init w ob obj_name (Some current_node)) objects)"

text \<open>
  The last loop, from the leaf upwards: \<open>real_module\<close> is the first module that
  \<^verbatim>\<open>inspect.getmodule\<close> finds; at the first node whose parent is a module, the parent
  is replaced by a fresh root node for \<open>real_module\<close> when it differs from the parent's
  object. The source assigns \<^verbatim>\<open>current_node.parent\<close> in place; the leaf refers to that
  node through its parents, so the model rebuilds the chain down to the leaf.
\<close>

fun real_parent_module :: "'o world \<Rightarrow> 'o option \<Rightarrow> 'o ObjectNode \<Rightarrow> 'o ObjectNode" where
  "real_parent_module w real_module (Node ob nm None) = Node ob nm None"
| "real_parent_module w real_module (Node ob nm (Some p)) =
     (let real_module = (if real_module = None then inspect_getmodule w ob else real_module) in
      if inspect_ismodule w (obj p) then
        (if real_module \<noteq> None \<and> the real_module \<noteq> obj p
         then Node ob nm (Some (ObjectNode_init w (the real_module) (dunder_name w (the real_module)) None))
         else Node ob nm (Some p))
      else Node ob nm (Some (real_parent_module w real_module p)))"

definition get_object_tree :: "'o world \<Rightarrow> string \<Rightarrow> exn + 'o ObjectNode" where
  "get_object_tree w path =
     (if path = [] then
        Inl (Exn ValueError (''path must be a valid Python path, not '' @ path))
      else
        bind (import_loop w (split_dot path) []) (\<lambda>(parent_module, objects).
        bind (walk_objects w (ObjectNode_init w parent_module (dunder_name w parent_module) None) objects)
          (\<lambda>leaf. Inr (real_parent_module w None leaf))))"

subsection \<open>The objects along a path\<close>

text \<open>
  Two notions used to state what \<open>get_object_tree\<close> returns. \<open>resolved_objects\<close> are
  the objects that the segments \<open>nms\<close> resolve to by \<^verbatim>\<open>getattr\<close>, starting from \<open>ob\<close>,
  each unwrapped as a node stores it. \<open>plain_chain w r node\<close> says that, on the way from
  \<open>node\<close> up to its root, every object below the root has no module of its own or the
  module \<open>r\<close>, that the root's object is \<open>r\<close>, and that no other parent is a module.
\<close>

fun resolved_objects :: "'o world \<Rightarrow> 'o \<Rightarrow> string list \<Rightarrow> 'o list" where
  "resolved_objects w ob [] = []"
| "resolved_objects w ob (nm # nms) =
     (case getattr w ob nm of
        Inl e \<Rightarrow> []
      | Inr x \<Rightarrow> inspect_unwrap w x # resolved_objects w (inspect_unwrap w x) nms)"

fun plain_chain :: "'o world \<Rightarrow> 'o \<Rightarrow> 'o ObjectNode \<Rightarrow> bool" where
  "plain_chain w r (Node ob nm None) = True"
| "plain_chain w r (Node ob nm (Some p)) =
     ((inspect_getmodule w ob = None \<or> inspect_getmodule w ob = Some r) \<and>
      (case parent p of None \<Rightarrow> obj p = r | Some q \<Rightarrow> \<not> inspect_ismodule w (obj p)) \<and>
      plain_chain w r p)"

subsection \<open>The calls of the resolver\<close>




subsection \<open>Documentation entities\<close>

text \<open>
  Modelled from the spec: the classes \<^verbatim>\<open>Source\<close>, \<^verbatim>\<open>Module\<close>, \<^verbatim>\<open>Class\<close>, \<^verbatim>\<open>Function\<close>,
  \<^verbatim>\<open>Method\<close>, \<^verbatim>\<open>Attribute\<close> and the method \<^verbatim>\<open>add_child\<close> of \<^verbatim>\<open>pytkdocs.objects\<close>,
  which the loader imports and whose file is not among the sources. An entity has a
  name, a dotted path, the file path, a raw docstring, a list of property tags and an
  ordered sequence of children; functions and methods add a signature and a source,
  attributes a type. A field a constructor is not given is absent (\<open>None\<close>) or empty,
  and \<^verbatim>\<open>add_child\<close> appends in discovery order. The sections the docstring parser
  attaches are not part of the model.
\<close>

datatype source = Source (source_code: string) (line_start: nat)

definition Source_lines :: "string list \<Rightarrow> nat \<Rightarrow> source" where
  "Source_lines lines lineno = Source (concat lines) lineno"

datatype category = ModuleObject | ClassObject | FunctionObject | MethodObject | AttributeObject

datatype 'o Object = Object
  (o_category: category)
  (o_name: string)
  (o_path: string)
  (o_file_path: string)
  (o_docstring: "string option")
  (o_properties: "string list")
  (o_source: "source option")
  (o_signature: "'o option")
  (o_attr_type: "'o option")
  (o_children: "'o Object list")

definition Module :: "string \<Rightarrow> string \<Rightarrow> string \<Rightarrow> string option \<Rightarrow> source option \<Rightarrow> 'o Object" where
  "Module nm pth fp doc src = Object ModuleObject nm pth fp doc [] src None None []"

definition Class :: "string \<Rightarrow> string \<Rightarrow> string \<Rightarrow> string option \<Rightarrow> 'o Object" where
  "Class nm pth fp doc = Object ClassObject nm pth fp doc [] None None None []"

definition Function :: "string \<Rightarrow> string \<Rightarrow> string \<Rightarrow> string option \<Rightarrow> 'o option \<Rightarrow> source option
    \<Rightarrow> string list \<Rightarrow> 'o Object" where
  "Function nm pth fp doc sig src props = Object FunctionObject nm pth fp doc props src sig None []"

definition Method :: "string \<Rightarrow> string \<Rightarrow> string \<Rightarrow> string option \<Rightarrow> 'o option \<Rightarrow> string list
    \<Rightarrow> source option \<Rightarrow> 'o Object" where
  "Method nm pth fp doc sig props src = Object MethodObject nm pth fp doc props src sig None []"

definition Attribute :: "string \<Rightarrow> string \<Rightarrow> string \<Rightarrow> string option \<Rightarrow> 'o option \<Rightarrow> string list
    \<Rightarrow> source option \<Rightarrow> 'o Object" where
  "Attribute nm pth fp doc ty props src = Object AttributeObject nm pth fp doc props src None ty []"

definition add_child :: "'o Object \<Rightarrow> 'o Object \<Rightarrow> 'o Object" where
  "add_child root_object child =
     (case root_object of Object c nm pth fp doc props src sig ty chs \<Rightarrow>
        Object c nm pth fp doc props src sig ty (chs @ [child]))"

text \<open>Assignments to \<^verbatim>\<open>.docstring\<close> and \<^verbatim>\<open>.properties\<close> of an entity.\<close>

definition set_docstring :: "string option \<Rightarrow> 'o Object \<Rightarrow> 'o Object" where
  "set_docstring doc ent =
     (case ent of Object c nm pth fp d props src sig ty chs \<Rightarrow>
        Object c nm pth fp doc props src sig ty chs)"

definition set_properties :: "string list \<Rightarrow> 'o Object \<Rightarrow> 'o Object" where
  "set_properties props ent =
     (case ent of Object c nm pth fp doc ps src sig ty chs \<Rightarrow>
        Object c nm pth fp doc props src sig ty chs)"

subsection \<open>Loader: construction and member selection\<close>

text \<open>
  The loader's state: the filters, each the filter as given with the pattern handed to
  \<^verbatim>\<open>re.compile\<close> (the filter without its leading \<^verbatim>\<open>!\<close> characters); the list of
  errors; and whether inherited members are selected. \<^verbatim>\<open>filter_name_out\<close> is memoized
  by \<^verbatim>\<open>lru_cache\<close>, which changes no result since the filters are never reassigned.
\<close>

record loader =
  filters :: "(string \<times> string) list"
  errors :: "string list"
  select_inherited_members :: bool

definition lstrip_bang :: "string \<Rightarrow> string" where
  "lstrip_bang f = dropWhile (\<lambda>c. c = CHR ''!'') f"

definition startswith_bang :: "string \<Rightarrow> bool" where
  "startswith_bang f = (case f of [] \<Rightarrow> False | c # cs \<Rightarrow> c = CHR ''!'')"

definition Loader_init :: "string list \<Rightarrow> bool \<Rightarrow> loader" where
  "Loader_init fs inherited_members =
     \<lparr>filters = map (\<lambda>f. (f, lstrip_bang f)) fs, errors = [],
      select_inherited_members = inherited_members\<rparr>"

definition append_error :: "string \<Rightarrow> loader \<Rightarrow> loader" where
  "append_error msg L = L\<lparr>errors := errors L @ [msg]\<rparr>"

text \<open>The loop of \<^verbatim>\<open>filter_name_out\<close> over the filters, with the variable \<open>keep\<close>.\<close>

fun filter_loop :: "'o world \<Rightarrow> (string \<times> string) list \<Rightarrow> string \<Rightarrow> bool \<Rightarrow> bool" where
  "filter_loop w [] nm keep = keep"
| "filter_loop w ((fltr, regex) # fs) nm keep =
     (let is_matching = re_search w regex nm in
      if is_matching then
        filter_loop w fs nm (if startswith_bang fltr then \<not> is_matching else is_matching)
      else filter_loop w fs nm keep)"

definition filter_name_out :: "'o world \<Rightarrow> loader \<Rightarrow> string \<Rightarrow> bool" where
  "filter_name_out w L nm =
     (if filters L = [] then False else \<not> filter_loop w (filters L) nm True)"

text \<open>
  The \<^verbatim>\<open>members\<close> argument: \<^verbatim>\<open>None\<close>, a boolean or a set of names. \<open>truthy\<close> is its
  truth value, \<open>or_set\<close> the expression \<^verbatim>\<open>select_members or set()\<close>.
\<close>

datatype members = MNone | MBool bool | MSet "string set"

fun truthy :: "members \<Rightarrow> bool" where
  "truthy MNone = False"
| "truthy (MBool b) = b"
| "truthy (MSet s) = (s \<noteq> {})"

definition or_set :: "members \<Rightarrow> members" where
  "or_set select_members = (if truthy select_members then select_members else MSet {})"

text \<open>\<^verbatim>\<open>select\<close>: \<^verbatim>\<open>name in names\<close> raises TypeError when \<open>names\<close> is \<^verbatim>\<open>True\<close>.\<close>

definition select :: "'o world \<Rightarrow> loader \<Rightarrow> string \<Rightarrow> members \<Rightarrow> exn + bool" where
  "select w L nm names =
     (if truthy names then
        (case names of
           MSet s \<Rightarrow> Inr (nm \<in> s)
         | _ \<Rightarrow> Inl (Exn TypeError ''argument of type 'bool' is not iterable''))
      else Inr (\<not> filter_name_out w L nm))"

subsection \<open>Regular expressions of anchors and literal characters\<close>

text \<open>
  Python's \<^verbatim>\<open>re.search\<close> for the patterns the filters of the specification use: a
  pattern is a sequence of literal characters, \<^verbatim>\<open>^\<close> (the start of the string) and
  \<^verbatim>\<open>$\<close> (the end of the string, or just before a newline that ends it). The search
  tries every start position from left to right. Patterns with other metacharacters are
  outside this model.
\<close>

datatype atom = Bol | Eol | Lit char

fun atoms_of :: "string \<Rightarrow> atom list" where
  "atoms_of [] = []"
| "atoms_of (c # cs) =
     (if c = CHR ''^'' then Bol else if c = CHR ''$'' then Eol else Lit c) # atoms_of cs"

fun match_here :: "atom list \<Rightarrow> bool \<Rightarrow> string \<Rightarrow> bool" where
  "match_here [] at_start s = True"
| "match_here (Bol # as) at_start s = (at_start \<and> match_here as at_start s)"
| "match_here (Eol # as) at_start s = ((s = [] \<or> s = [CHR 0x0A]) \<and> match_here as at_start s)"
| "match_here (Lit c # as) at_start [] = False"
| "match_here (Lit c # as) at_start (d # ds) = (c = d \<and> match_here as False ds)"

fun search_from :: "atom list \<Rightarrow> bool \<Rightarrow> string \<Rightarrow> bool" where
  "search_from as at_start [] = match_here as at_start []"
| "search_from as at_start (d # ds) = (match_here as at_start (d # ds) \<or> search_from as False ds)"

definition py_search :: "string \<Rightarrow> string \<Rightarrow> bool" where
  "py_search pattern s = search_from (atoms_of pattern) True s"

subsection \<open>Loader: functions, methods, properties and attributes\<close>

definition get_function_documentation ::
    "'o world \<Rightarrow> 'o ObjectNode \<Rightarrow> loader \<Rightarrow> exn + ('o Object \<times> loader)" where
  "get_function_documentation w node L =
     (let func = obj node; path = dotted_path node in
      bind (case inspect_signature w func of
              Inr sg \<Rightarrow> Inr (Some sg, L)
            | Inl error \<Rightarrow>
                if exc_type error = TypeError then
                  Inr (None, append_error
                    (''Couldn't get signature for '' @ quoted path @ '': '' @ exc_str error) L)
                else Inl error)
        (\<lambda>(signature, L).
      bind (case inspect_getsourcelines w func of
              Inr (lines, lineno) \<Rightarrow> Inr (Some (Source_lines lines lineno), L)
            | Inl error \<Rightarrow>
                if exc_type error = OSError then
                  Inr (None, append_error
                    (''Couldn't read source for '' @ quoted path @ '': '' @ exc_str error) L)
                else Inl error)
        (\<lambda>(source, L).
      bind (file_path w node) (\<lambda>fp.
        Inr (Function (name node) (dotted_path node) fp (inspect_getdoc w func) signature source
               (if is_coroutine_function w node then [''async''] else []), L)))))"

definition get_property_documentation ::
    "'o world \<Rightarrow> 'o ObjectNode \<Rightarrow> loader \<Rightarrow> exn + ('o Object \<times> loader)" where
  "get_property_documentation w node L =
     (let prop = obj node; path = dotted_path node;
          properties = [''property'', if property_fset w prop = None then ''readonly'' else ''writable'']
      in
      bind (case inspect_signature w (property_fget w prop) of
              Inr sg \<Rightarrow> Inr (Some (return_annotation w sg), L)
            | Inl error \<Rightarrow>
                if exc_type error = TypeError \<or> exc_type error = ValueError then
                  Inr (None, append_error
                    (''Couldn't get signature for '' @ quoted path @ '': '' @ exc_str error) L)
                else Inl error)
        (\<lambda>(attr_type, L).
      bind (case inspect_getsourcelines w (property_fget w prop) of
              Inr (lines, lineno) \<Rightarrow> Inr (Some (Source_lines lines lineno), L)
            | Inl error \<Rightarrow>
                if exc_type error = OSError \<or> exc_type error = TypeError then
                  Inr (None, append_error
                    (''Couldn't get source for '' @ quoted path @ '': '' @ exc_str error) L)
                else Inl error)
        (\<lambda>(source, L).
      bind (file_path w node) (\<lambda>fp.
        Inr (Attribute (name node) path fp (inspect_getdoc w (property_fget w prop)) attr_type
               properties source, L)))))"

definition get_pydantic_field_documentation :: "'o world \<Rightarrow> 'o ObjectNode \<Rightarrow> exn + 'o Object" where
  "get_pydantic_field_documentation w node =
     (let prop = obj node; path = dotted_path node;
          properties = [''pydantic-field''] @ (if field_required w prop then [''required''] else [])
      in
      bind (file_path w node) (\<lambda>fp.
        Inr (Attribute (name node) path fp (field_info_description w prop)
               (Some (pydantic_type w prop)) properties None)))"

definition get_marshmallow_field_documentation :: "'o world \<Rightarrow> 'o ObjectNode \<Rightarrow> exn + 'o Object" where
  "get_marshmallow_field_documentation w node =
     (let prop = obj node; path = dotted_path node;
          properties = [''marshmallow-field''] @ (if field_required w prop then [''required''] else [])
      in
      bind (file_path w node) (\<lambda>fp.
        Inr (Attribute (name node) path fp (metadata_description w prop)
               (Some (type_of w prop)) properties None)))"

text \<open>\<^verbatim>\<open>d.get(name, {})\<close> on a declared-attribute map: the empty dictionary has neither key.\<close>

definition attributes_get :: "(string \<times> 'o attribute_data) list \<Rightarrow> string \<Rightarrow> 'o attribute_data" where
  "attributes_get d nm =
     (case map_of d nm of None \<Rightarrow> \<lparr>ad_docstring = None, ad_annotation = None\<rparr> | Some x \<Rightarrow> x)"

text \<open>The default of \<open>attribute_data\<close>, shared by the two functions below: the map of the
  parent class when the parent is a class, of the root's module otherwise.\<close>

definition default_attribute_data :: "'o world \<Rightarrow> 'o ObjectNode \<Rightarrow> 'o attribute_data" where
  "default_attribute_data w node =
     (case parent node of
        Some p \<Rightarrow>
          if is_class w p then attributes_get (get_class_attributes w (obj p)) (name node)
          else attributes_get (get_module_attributes w (obj (root node))) (name node)
      | None \<Rightarrow> attributes_get (get_module_attributes w (obj (root node))) (name node))"

text \<open>\<^verbatim>\<open>attribute_data["docstring"]\<close> and \<^verbatim>\<open>attribute_data["annotation"]\<close> raise KeyError
  on an absent key.\<close>

definition get_annotated_dataclass_field ::
    "'o world \<Rightarrow> 'o ObjectNode \<Rightarrow> 'o attribute_data option \<Rightarrow> exn + 'o Object" where
  "get_annotated_dataclass_field w node attribute_data =
     (let attribute_data =
            (case attribute_data of None \<Rightarrow> default_attribute_data w node | Some d \<Rightarrow> d)
      in
      bind (file_path w node) (\<lambda>fp.
        case ad_docstring attribute_data of
          None \<Rightarrow> Inl (Exn KeyError (quoted ''docstring''))
        | Some docstring \<Rightarrow>
            (case ad_annotation attribute_data of
               None \<Rightarrow> Inl (Exn KeyError (quoted ''annotation''))
             | Some attr_type \<Rightarrow>
                 Inr (Attribute (name node) (dotted_path node) fp docstring attr_type
                        [''dataclass-field''] None))))"

text \<open>\<^verbatim>\<open>attribute_data.get("docstring", "")\<close> and \<^verbatim>\<open>attribute_data.get("annotation", None)\<close>.\<close>

definition get_attribute_documentation ::
    "'o world \<Rightarrow> 'o ObjectNode \<Rightarrow> 'o attribute_data option \<Rightarrow> exn + 'o Object" where
  "get_attribute_documentation w node attribute_data =
     (let attribute_data =
            (case attribute_data of None \<Rightarrow> default_attribute_data w node | Some d \<Rightarrow> d)
      in
      bind (file_path w node) (\<lambda>fp.
        Inr (Attribute (name node) (dotted_path node) fp
               (case ad_docstring attribute_data of None \<Rightarrow> Some [] | Some docstring \<Rightarrow> docstring)
               (case ad_annotation attribute_data of None \<Rightarrow> None | Some attr_type \<Rightarrow> attr_type)
               [] None)))"

text \<open>\<^verbatim>\<open>get_method_documentation\<close>: the source is read under \<^verbatim>\<open>try\<close>; the signature is
  read in the call of \<^verbatim>\<open>Method\<close>, outside any \<^verbatim>\<open>try\<close>.\<close>

definition get_method_documentation ::
    "'o world \<Rightarrow> 'o ObjectNode \<Rightarrow> string list option \<Rightarrow> loader \<Rightarrow> exn + ('o Object \<times> loader)" where
  "get_method_documentation w node properties L =
     (let method = obj node; path = dotted_path node in
      bind (case inspect_getsourcelines w method of
              Inr (lines, lineno) \<Rightarrow> Inr (Some (Source_lines lines lineno), L)
            | Inl error \<Rightarrow>
                if exc_type error = OSError then
                  Inr (None, append_error
                    (''Couldn't read source for '' @ quoted path @ '': '' @ exc_str error) L)
                else if exc_type error = TypeError then Inr (None, L)
                else Inl error)
        (\<lambda>(source, L).
      let properties =
            (if is_coroutine_function w node then
               (case properties of None \<Rightarrow> Some [''async''] | Some ps \<Rightarrow> Some (ps @ [''async'']))
             else properties)
      in
      bind (file_path w node) (\<lambda>fp.
      bind (inspect_signature w method) (\<lambda>signature.
        Inr (Method (name node) path fp (inspect_getdoc w method) (Some signature)
               (case properties of None \<Rightarrow> [] | Some ps \<Rightarrow> ps) source, L)))))"

definition get_classmethod_documentation ::
    "'o world \<Rightarrow> 'o ObjectNode \<Rightarrow> loader \<Rightarrow> exn + ('o Object \<times> loader)" where
  "get_classmethod_documentation w node L = get_method_documentation w node (Some [''classmethod'']) L"

definition get_staticmethod_documentation ::
    "'o world \<Rightarrow> 'o ObjectNode \<Rightarrow> loader \<Rightarrow> exn + ('o Object \<times> loader)" where
  "get_staticmethod_documentation w node L = get_method_documentation w node (Some [''staticmethod'']) L"

text \<open>The loop over \<^verbatim>\<open>class_.__mro__[1:]\<close>: AttributeError continues with the next parent
  class; the first parent class that has the attribute decides, and the loop breaks.\<close>

fun parent_classes_loop :: "'o world \<Rightarrow> 'o list \<Rightarrow> string \<Rightarrow> string option \<Rightarrow> 'o Object \<Rightarrow> exn + 'o Object" where
  "parent_classes_loop w [] nm docstring method = Inr method"
| "parent_classes_loop w (parent_class # parent_classes) nm docstring method =
     (case getattr w parent_class nm of
        Inl error \<Rightarrow>
          if exc_type error = AttributeError then parent_classes_loop w parent_classes nm docstring method
          else Inl error
      | Inr parent_method \<Rightarrow>
          if docstring = inspect_getdoc w parent_method then Inr (set_docstring (Some []) method)
          else Inr method)"

definition get_regular_method_documentation ::
    "'o world \<Rightarrow> 'o ObjectNode \<Rightarrow> loader \<Rightarrow> exn + ('o Object \<times> loader)" where
  "get_regular_method_documentation w node L =
     bind (get_method_documentation w node None L) (\<lambda>(method, L).
       case parent node of
         None \<Rightarrow> Inr (method, L)
       | Some p \<Rightarrow>
           (let klass = obj p in
            if RE_SPECIAL_match w (name node) then
              bind (parent_classes_loop w (tl (dunder_mro w klass)) (name node) (o_docstring method) method)
                (\<lambda>method. Inr (method, L))
            else Inr (method, L)))"

text \<open>
  The ancestor that the specification of the special methods names: the first class
  after the class itself, in linearized order, that defines the name, that is, has it
  in its own \<^verbatim>\<open>__dict__\<close>. The loop above does not compute it.
\<close>

definition first_defining_ancestor :: "'o world \<Rightarrow> 'o \<Rightarrow> string \<Rightarrow> 'o option" where
  "first_defining_ancestor w klass nm =
     find (\<lambda>c. nm \<in> set (dict_keys (dunder_dict w c))) (tl (dunder_mro w klass))"

subsection \<open>Loader: classes\<close>

text \<open>The declared attributes of a class: the maps of \<^verbatim>\<open>reversed(class_.__mro__[:-1])\<close>,
  merged from the most distant ancestor to the class itself.\<close>

definition merged_class_attributes :: "'o world \<Rightarrow> 'o \<Rightarrow> (string \<times> 'o attribute_data) list" where
  "merged_class_attributes w klass =
     foldl (\<lambda>attributes_data cls. attributes_merge w attributes_data (get_class_attributes w cls))
       [] (rev (butlast (dunder_mro w klass)))"

text \<open>The first loop over \<^verbatim>\<open>all_members\<close>: the state is \<open>(members, inherited)\<close>.\<close>

definition select_class_member ::
    "'o world \<Rightarrow> loader \<Rightarrow> members \<Rightarrow> (string \<times> 'o) list \<Rightarrow> string \<times> 'o
      \<Rightarrow> (string \<times> 'o) list \<times> string set \<Rightarrow> exn + ((string \<times> 'o) list \<times> string set)" where
  "select_class_member w L select_members direct_members item st =
     (let member_name = fst item; member = snd item; members = fst st; inherited = snd st in
      if is_type_or_object w member then Inr st
      else
        bind (select w L member_name select_members) (\<lambda>selected.
          if selected then
            (if member_name \<notin> set (dict_keys direct_members) then
               (if select_inherited_members L then
                  Inr (AList.update member_name member members, insert member_name inherited)
                else Inr st)
             else Inr (AList.update member_name member members, inherited))
          else Inr st))"

text \<open>The second loop, over the selected members: the state is the class entity and
  the loader. \<open>rec\<close> is \<^verbatim>\<open>self.get_class_documentation\<close>, called for a nested class.\<close>

definition document_class_member ::
    "('o ObjectNode \<Rightarrow> members \<Rightarrow> loader \<Rightarrow> exn + ('o Object \<times> loader)) \<Rightarrow> 'o world \<Rightarrow> 'o ObjectNode
      \<Rightarrow> (string \<times> 'o attribute_data) list \<Rightarrow> string set \<Rightarrow> string \<times> 'o
      \<Rightarrow> 'o Object \<times> loader \<Rightarrow> exn + ('o Object \<times> loader)" where
  "document_class_member rec w node attributes_data inherited item st =
     (let member_name = fst item; member = snd item; root_object = fst st; L = snd st;
          child_node = ObjectNode_init w member member_name (Some node)
      in
      bind (if is_class w child_node then
              bind (rec child_node MNone L) (\<lambda>r. Inr (Some r))
            else if is_classmethod w child_node then
              bind (get_classmethod_documentation w child_node L) (\<lambda>r. Inr (Some r))
            else if is_staticmethod w child_node then
              bind (get_staticmethod_documentation w child_node L) (\<lambda>r. Inr (Some r))
            else if is_method w child_node then
              bind (get_regular_method_documentation w child_node L) (\<lambda>r. Inr (Some r))
            else if is_property w child_node then
              bind (get_property_documentation w child_node L) (\<lambda>r. Inr (Some r))
            else
              (case map_of attributes_data member_name of
                 Some data \<Rightarrow>
                   bind (get_attribute_documentation w child_node (Some data)) (\<lambda>child. Inr (Some (child, L)))
               | None \<Rightarrow> Inr None))
        (\<lambda>r. case r of
           None \<Rightarrow> Inr (root_object, L)
         | Some (child, L) \<Rightarrow>
             (let child = (if member_name \<in> inherited
                           then set_properties (o_properties child @ [''inherited'']) child
                           else child)
              in Inr (add_child root_object child, L))))"

text \<open>
  The test of each structured-declaration branch: the registry is declared by the
  class itself, or inherited members are selected and the registry is among all members.
\<close>

definition registry_declared :: "loader \<Rightarrow> (string \<times> 'o) list \<Rightarrow> (string \<times> 'o) list \<Rightarrow> string \<Rightarrow> bool" where
  "registry_declared L direct_members all_members key =
     (key \<in> set (dict_keys direct_members) \<or>
      (select_inherited_members L \<and> key \<in> set (dict_keys all_members)))"

text \<open>\<^verbatim>\<open>all_members[key]\<close> raises KeyError on an absent key.\<close>

definition dict_getitem :: "(string \<times> 'v) list \<Rightarrow> string \<Rightarrow> exn + 'v" where
  "dict_getitem d key = (case map_of d key of None \<Rightarrow> Inl (Exn KeyError (quoted key)) | Some v \<Rightarrow> Inr v)"

text \<open>
  \<^verbatim>\<open>chain(*(getattr(cls, key, {}).keys() for cls in class_.__mro__[1:-1]))\<close>: the
  argument unpacking reads the registry of every parent class before the membership
  test; \<^verbatim>\<open>getattr\<close> with a default swallows AttributeError only.
\<close>

definition parent_registry_keys :: "'o world \<Rightarrow> 'o \<Rightarrow> string \<Rightarrow> exn + string list" where
  "parent_registry_keys w klass key =
     for_each (\<lambda>cls ks.
         case getattr w cls key of
           Inr registry \<Rightarrow> Inr (ks @ dict_keys (dict_items w registry))
         | Inl error \<Rightarrow> if exc_type error = AttributeError then Inr ks else Inl error)
       (butlast (tl (dunder_mro w klass))) []"

text \<open>The condition of the three field loops: the name is selected, and inherited
  members are selected or no parent class has the name in its registry.\<close>

definition field_selected :: "'o world \<Rightarrow> loader \<Rightarrow> 'o \<Rightarrow> members \<Rightarrow> string \<Rightarrow> string \<Rightarrow> exn + bool" where
  "field_selected w L klass select_members key fname =
     bind (select w L fname select_members) (\<lambda>selected.
       if selected then
         (if select_inherited_members L then Inr True
          else bind (parent_registry_keys w klass key) (\<lambda>ks. Inr (fname \<notin> set ks)))
       else Inr False)"

definition document_pydantic_field ::
    "'o world \<Rightarrow> loader \<Rightarrow> 'o ObjectNode \<Rightarrow> members \<Rightarrow> string \<times> 'o \<Rightarrow> 'o Object \<Rightarrow> exn + 'o Object" where
  "document_pydantic_field w L node select_members item root_object =
     bind (field_selected w L (obj node) select_members ''__fields__'' (fst item)) (\<lambda>selected.
       if selected then
         bind (get_pydantic_field_documentation w (ObjectNode_init w (snd item) (fst item) (Some node)))
           (\<lambda>child. Inr (add_child root_object child))
       else Inr root_object)"

definition document_marshmallow_field ::
    "'o world \<Rightarrow> loader \<Rightarrow> 'o ObjectNode \<Rightarrow> members \<Rightarrow> string \<times> 'o \<Rightarrow> 'o Object \<Rightarrow> exn + 'o Object" where
  "document_marshmallow_field w L node select_members item root_object =
     bind (field_selected w L (obj node) select_members ''_declared_fields'' (fst item)) (\<lambda>selected.
       if selected then
         bind (get_marshmallow_field_documentation w (ObjectNode_init w (snd item) (fst item) (Some node)))
           (\<lambda>child. Inr (add_child root_object child))
       else Inr root_object)"

definition document_dataclass_field ::
    "'o world \<Rightarrow> loader \<Rightarrow> 'o ObjectNode \<Rightarrow> members \<Rightarrow> 'o \<Rightarrow> 'o Object \<Rightarrow> exn + 'o Object" where
  "document_dataclass_field w L node select_members field root_object =
     bind (field_selected w L (obj node) select_members ''__dataclass_fields__'' (field_name w field))
       (\<lambda>selected.
       if selected then
         bind (get_annotated_dataclass_field w
                 (ObjectNode_init w (field_type w field) (field_name w field) (Some node)) None)
           (\<lambda>child. Inr (add_child root_object child))
       else Inr root_object)"

text \<open>The \<^verbatim>\<open>if\<close> / \<^verbatim>\<open>elif\<close> / \<^verbatim>\<open>elif\<close> chain that ends \<^verbatim>\<open>get_class_documentation\<close>.\<close>

definition document_structured_fields ::
    "'o world \<Rightarrow> loader \<Rightarrow> 'o ObjectNode \<Rightarrow> members \<Rightarrow> (string \<times> 'o) list \<Rightarrow> (string \<times> 'o) list
      \<Rightarrow> 'o Object \<Rightarrow> exn + 'o Object" where
  "document_structured_fields w L node select_members direct_members all_members root_object =
     (if registry_declared L direct_members all_members ''__fields__'' then
        bind (dict_getitem all_members ''__fields__'') (\<lambda>registry.
          for_each (document_pydantic_field w L node select_members) (dict_items w registry)
            (set_properties [''pydantic-model''] root_object))
      else if registry_declared L direct_members all_members ''_declared_fields'' then
        bind (dict_getitem all_members ''_declared_fields'') (\<lambda>registry.
          for_each (document_marshmallow_field w L node select_members) (dict_items w registry)
            (set_properties [''marshmallow-model''] root_object))
      else if registry_declared L direct_members all_members ''__dataclass_fields__'' then
        bind (dict_getitem all_members ''__dataclass_fields__'') (\<lambda>registry.
          for_each (document_dataclass_field w L node select_members) (map snd (dict_items w registry))
            (set_properties [''dataclass''] root_object))
      else Inr root_object)"

text \<open>The body of \<^verbatim>\<open>get_class_documentation\<close>, with its recursive call as \<open>rec\<close>.\<close>

definition class_documentation ::
    "('o ObjectNode \<Rightarrow> members \<Rightarrow> loader \<Rightarrow> exn + ('o Object \<times> loader)) \<Rightarrow> 'o world \<Rightarrow> 'o ObjectNode
      \<Rightarrow> members \<Rightarrow> loader \<Rightarrow> exn + ('o Object \<times> loader)" where
  "class_documentation rec w node select_members L =
     (let klass = obj node;
          docstring = inspect_cleandoc w (case dunder_doc w klass of None \<Rightarrow> [] | Some d \<Rightarrow> d)
      in
      bind (file_path w node) (\<lambda>fp.
      let root_object = Class (name node) (dotted_path node) fp (Some docstring);
          attributes_data = merged_class_attributes w klass
      in
      bind (if ''__init__'' \<in> set (dict_keys (dunder_dict w klass)) then
              bind (getattr w klass ''__init__'') (\<lambda>init.
              bind (inspect_signature w init) (\<lambda>signature.
                Inr (dict_update attributes_data (get_instance_attributes w init))))
            else Inr attributes_data)
        (\<lambda>attributes_data.
      if select_members = MBool False then Inr (root_object, L)
      else
        (let select_members = or_set select_members;
             direct_members = dunder_dict w klass;
             all_members = dict_of (inspect_getmembers w klass)
         in
         bind (for_each (select_class_member w L select_members direct_members) all_members ([], {}))
           (\<lambda>(members, inherited).
         bind (for_each (document_class_member rec w node attributes_data inherited) members (root_object, L))
           (\<lambda>(root_object, L').
         bind (document_structured_fields w L' node select_members direct_members all_members root_object)
           (\<lambda>root_object. Inr (root_object, L'))))))))"

text \<open>
  \<^verbatim>\<open>get_class_documentation\<close> calls itself for nested classes, as deep as the objects
  nest. The first argument bounds the depth of these calls: beyond it the call raises
  RecursionError, as the interpreter does at its recursion limit.
\<close>

primrec get_class_documentation ::
    "nat \<Rightarrow> 'o world \<Rightarrow> 'o ObjectNode \<Rightarrow> members \<Rightarrow> loader \<Rightarrow> exn + ('o Object \<times> loader)" where
  "get_class_documentation 0 w node select_members L =
     Inl (Exn RecursionError ''maximum recursion depth exceeded'')"
| "get_class_documentation (Suc depth) w node select_members L =
     class_documentation (get_class_documentation depth w) w node select_members L"

subsection \<open>Loader: modules\<close>

text \<open>
  The source of a module: \<^verbatim>\<open>inspect.getsource\<close>; on OSError the file of the module is
  read, and an empty file gives no source; when reading raises OSError as well, the
  error of \<^verbatim>\<open>inspect.getsource\<close> is recorded.
\<close>

definition module_source :: "'o world \<Rightarrow> 'o ObjectNode \<Rightarrow> loader \<Rightarrow> exn + (source option \<times> loader)" where
  "module_source w node L =
     (let module = obj node; path = dotted_path node in
      case inspect_getsource w module of
        Inr text \<Rightarrow> Inr (Some (Source text 1), L)
      | Inl error \<Rightarrow>
          if exc_type error = OSError then
            (case bind (file_path w node) (open_readlines w) of
               Inr code \<Rightarrow> Inr (if code \<noteq> [] then Some (Source_lines code 1) else None, L)
             | Inl error2 \<Rightarrow>
                 if exc_type error2 = OSError then
                   Inr (None, append_error
                     (''Couldn't read source for '' @ quoted path @ '': '' @ exc_str error) L)
                 else Inl error2)
          else Inl error)"

text \<open>The loop over \<^verbatim>\<open>inspect.getmembers(module)\<close>: the state is the module entity and
  the loader. \<open>rec_class\<close> is \<^verbatim>\<open>self.get_class_documentation\<close>.\<close>

definition document_module_member ::
    "('o ObjectNode \<Rightarrow> members \<Rightarrow> loader \<Rightarrow> exn + ('o Object \<times> loader)) \<Rightarrow> 'o world \<Rightarrow> 'o ObjectNode
      \<Rightarrow> members \<Rightarrow> (string \<times> 'o attribute_data) list \<Rightarrow> string \<times> 'o
      \<Rightarrow> 'o Object \<times> loader \<Rightarrow> exn + ('o Object \<times> loader)" where
  "document_module_member rec_class w node select_members attributes_data item st =
     (let member_name = fst item; member = snd item; root_object = fst st; L = snd st in
      bind (select w L member_name select_members) (\<lambda>selected.
        if selected then
          (let child_node = ObjectNode_init w member member_name (Some node) in
           if is_class w child_node \<and> Some (obj (root node)) = inspect_getmodule w member then
             bind (rec_class child_node MNone L) (\<lambda>(child, L). Inr (add_child root_object child, L))
           else if is_function w child_node \<and> Some (obj (root node)) = inspect_getmodule w member then
             bind (get_function_documentation w child_node L)
               (\<lambda>(child, L). Inr (add_child root_object child, L))
           else
             (case map_of attributes_data member_name of
                Some data \<Rightarrow>
                  bind (get_attribute_documentation w child_node (Some data))
                    (\<lambda>child. Inr (add_child root_object child, L))
              | None \<Rightarrow> Inr (root_object, L)))
        else Inr (root_object, L)))"

text \<open>The loop over the submodules of a package. \<open>rec_module\<close> is
  \<^verbatim>\<open>self.get_module_documentation\<close>.\<close>

definition document_submodule ::
    "('o ObjectNode \<Rightarrow> members \<Rightarrow> loader \<Rightarrow> exn + ('o Object \<times> loader)) \<Rightarrow> 'o world \<Rightarrow> string
      \<Rightarrow> members \<Rightarrow> string \<Rightarrow> 'o Object \<times> loader \<Rightarrow> exn + ('o Object \<times> loader)" where
  "document_submodule rec_module w path select_members modname st =
     (let root_object = fst st; L = snd st in
      bind (select w L modname select_members) (\<lambda>selected.
        if selected then
          bind (get_object_tree w (path @ ''.'' @ modname)) (\<lambda>leaf.
          bind (rec_module leaf MNone L) (\<lambda>(child, L). Inr (add_child root_object child, L)))
        else Inr (root_object, L)))"

definition module_documentation ::
    "('o ObjectNode \<Rightarrow> members \<Rightarrow> loader \<Rightarrow> exn + ('o Object \<times> loader))
      \<Rightarrow> ('o ObjectNode \<Rightarrow> members \<Rightarrow> loader \<Rightarrow> exn + ('o Object \<times> loader))
      \<Rightarrow> 'o world \<Rightarrow> 'o ObjectNode \<Rightarrow> members \<Rightarrow> loader \<Rightarrow> exn + ('o Object \<times> loader)" where
  "module_documentation rec_class rec_module w node select_members L =
     (let module = obj node; path = dotted_path node; nm = last (split_dot path) in
      bind (module_source w node L) (\<lambda>(source, L).
      bind (file_path w node) (\<lambda>fp.
      let root_object = Module nm path fp (inspect_getdoc w module) source in
      if select_members = MBool False then Inr (root_object, L)
      else
        (let select_members = or_set select_members;
             attributes_data = get_module_attributes w module
         in
         bind (for_each (document_module_member rec_class w node select_members attributes_data)
                 (inspect_getmembers w module) (root_object, L))
           (\<lambda>st.
         case pkgutil_iter_modules w module of
           None \<Rightarrow> Inr st
         | Some modnames \<Rightarrow>
             for_each (document_submodule rec_module w path select_members) modnames st)))))"

text \<open>\<^verbatim>\<open>get_module_documentation\<close>, with the same bound on the depth of the calls.\<close>

primrec get_module_documentation ::
    "nat \<Rightarrow> 'o world \<Rightarrow> 'o ObjectNode \<Rightarrow> members \<Rightarrow> loader \<Rightarrow> exn + ('o Object \<times> loader)" where
  "get_module_documentation 0 w node select_members L =
     Inl (Exn RecursionError ''maximum recursion depth exceeded'')"
| "get_module_documentation (Suc depth) w node select_members L =
     module_documentation (get_class_documentation depth w) (get_module_documentation depth w)
       w node select_members L"

subsection \<open>Loader: the entry point\<close>

text \<open>
  \<^verbatim>\<open>get_object_documentation\<close>: the result is the root entity with the loader, whose
  \<open>errors\<close> the caller reads afterwards. The pass of the docstring parser over the
  finished tree attaches sections only and is not modelled.
\<close>

definition get_object_documentation ::
    "nat \<Rightarrow> 'o world \<Rightarrow> loader \<Rightarrow> string \<Rightarrow> members \<Rightarrow> exn + ('o Object \<times> loader)" where
  "get_object_documentation depth w L dotted members =
     (let members = (if members = MBool True then MSet {} else members) in
      bind (get_object_tree w dotted) (\<lambda>leaf.
        if is_module w leaf then get_module_documentation depth w leaf members L
        else if is_class w leaf then get_class_documentation depth w leaf members L
        else if is_staticmethod w leaf then get_staticmethod_documentation w leaf L
        else if is_classmethod w leaf then get_classmethod_documentation w leaf L
        else if is_method w leaf then get_regular_method_documentation w leaf L
        else if is_function w leaf then get_function_documentation w leaf L
        else if is_property w leaf then get_property_documentation w leaf L
        else bind (get_attribute_documentation w leaf None) (\<lambda>root_object. Inr (root_object, L))))"

subsection \<open>Growth of the error list\<close>

text \<open>The loader \<open>L'\<close> has the settings of \<open>L\<close>, and its errors are those of \<open>L\<close>,
  in order, followed by further ones.\<close>

definition errors_extended :: "loader \<Rightarrow> loader \<Rightarrow> bool" where
  "errors_extended L L' =
     (filters L' = filters L \<and> select_inherited_members L' = select_inherited_members L \<and>
      (\<exists>rest. errors L' = errors L @ rest))"

subsection \<open>Field tags\<close>

text \<open>The tags of an entity that mark it as a field of one of the three
  structured-declaration conventions.\<close>

definition field_tags :: "'o Object \<Rightarrow> string set" where
  "field_tags ent =
     set (o_properties ent) \<inter> {''pydantic-field'', ''marshmallow-field'', ''dataclass-field''}"

section \<open>Example interpreters\<close>

text \<open>
  Concrete interpreters, with natural numbers as object handles, on which the
  definitions above are evaluated. In \<open>bare_world\<close> nothing can be imported, no object
  has attributes, members, source or signature, and every object lives in the file
  \<^verbatim>\<open>/src/mod.py\<close>; the examples below override what they need.
\<close>

definition bare_world :: "nat world" where
  "bare_world = \<lparr>
     importlib_import_module = (\<lambda>p. Inl (Exn ImportError (''No module named '' @ quoted p))),
     getattr = (\<lambda>ob nm. Inl (Exn AttributeError nm)),
     inspect_unwrap = (\<lambda>ob. ob),
     dunder_name = (\<lambda>ob. []),
     dunder_dict = (\<lambda>ob. []),
     dunder_mro = (\<lambda>ob. [ob]),
     dunder_doc = (\<lambda>ob. None),
     inspect_getmodule = (\<lambda>ob. None),
     inspect_getabsfile = (\<lambda>ob. Inr ''/src/mod.py''),
     inspect_ismodule = (\<lambda>ob. False),
     inspect_isclass = (\<lambda>ob. False),
     inspect_isfunction = (\<lambda>ob. False),
     inspect_iscoroutinefunction = (\<lambda>ob. False),
     isinstance_property = (\<lambda>ob. False),
     isinstance_staticmethod = (\<lambda>ob. False),
     isinstance_classmethod = (\<lambda>ob. False),
     is_type_or_object = (\<lambda>ob. False),
     inspect_getsource = (\<lambda>ob. Inl (Exn OSError ''source code not available'')),
     open_readlines = (\<lambda>fp. Inl (Exn OSError ''No such file or directory'')),
     inspect_getsourcelines = (\<lambda>ob. Inl (Exn OSError ''could not get source code'')),
     inspect_signature = (\<lambda>ob. Inl (Exn TypeError ''not a callable object'')),
     return_annotation = (\<lambda>sg. sg),
     inspect_getdoc = (\<lambda>ob. None),
     inspect_cleandoc = (\<lambda>d. d),
     inspect_getmembers = (\<lambda>ob. []),
     pkgutil_iter_modules = (\<lambda>ob. None),
     get_module_attributes = (\<lambda>ob. []),
     get_class_attributes = (\<lambda>ob. []),
     get_instance_attributes = (\<lambda>ob. []),
     attributes_merge = dict_update,
     dict_items = (\<lambda>ob. []),
     field_name = (\<lambda>ob. []),
     field_type = (\<lambda>ob. ob),
     field_required = (\<lambda>ob. False),
     field_info_description = (\<lambda>ob. None),
     pydantic_type = (\<lambda>ob. ob),
     metadata_description = (\<lambda>ob. None),
     type_of = (\<lambda>ob. ob),
     property_fset = (\<lambda>ob. None),
     property_fget = (\<lambda>ob. ob),
     re_search = py_search,
     RE_SPECIAL_match = (\<lambda>nm. 4 < length nm \<and> take 2 nm = ''__'' \<and> take 2 (rev nm) = ''__'')
   \<rparr>"

text \<open>
  A package \<^verbatim>\<open>pkg\<close> (object 0) and its module \<^verbatim>\<open>pkg.mod\<close> (object 1). The module defines
  the class \<^verbatim>\<open>C\<close> (object 2) and the function \<^verbatim>\<open>f\<close> (object 3); the package re-exports
  \<^verbatim>\<open>C\<close>.
\<close>

definition resolver_world :: "nat world" where
  "resolver_world = bare_world\<lparr>
     importlib_import_module := (\<lambda>p.
       if p = ''pkg'' then Inr 0 else if p = ''pkg.mod'' then Inr 1
       else Inl (Exn ImportError (''No module named '' @ quoted p))),
     dunder_name := (\<lambda>ob. if ob = 0 then ''pkg'' else if ob = 1 then ''pkg.mod'' else []),
     getattr := (\<lambda>ob nm.
       if (ob = 0 \<or> ob = 1) \<and> nm = ''C'' then Inr 2
       else if ob = 1 \<and> nm = ''f'' then Inr 3
       else Inl (Exn AttributeError nm)),
     inspect_ismodule := (\<lambda>ob. ob = 0 \<or> ob = 1),
     inspect_getmodule := (\<lambda>ob. if ob = 2 \<or> ob = 3 then Some 1 else None)\<rparr>"

text \<open>
  A module \<^verbatim>\<open>mod\<close> (object 0) with a class \<^verbatim>\<open>A\<close> (object 1) that declares
  \<^verbatim>\<open>m = staticmethod(min)\<close>: the attribute \<^verbatim>\<open>A.m\<close> is the builtin (object 3), with no
  source and no signature that \<^verbatim>\<open>inspect\<close> can find, stored as a staticmethod (object
  4). Every other callable has a source and no signature (TypeError). No attribute is
  declared in the maps of the attribute parsers.
\<close>

definition signature_world :: "nat world" where
  "signature_world = bare_world\<lparr>
     inspect_isclass := (\<lambda>ob. ob = 1),
     dunder_dict := (\<lambda>ob. if ob = 1 then [(''m'', 4)] else []),
     isinstance_staticmethod := (\<lambda>ob. ob = 4),
     inspect_signature := (\<lambda>ob.
       if ob = 3 then Inl (Exn ValueError ''no signature found for builtin <built-in function min>'')
       else Inl (Exn TypeError ''unsupported callable'')),
     inspect_getsourcelines := (\<lambda>ob.
       if ob = 3 then Inl (Exn TypeError ''module, class, method, function, traceback, frame, or code object was expected, got builtin_function_or_method'')
       else Inr ([''def f(): pass''], 7))\<rparr>"

text \<open>
  A class \<^verbatim>\<open>C\<close> (object 2) whose ancestors in linearized order are the objects 8, 3
  and 9. The class 8 has no \<^verbatim>\<open>__init__\<close>; \<^verbatim>\<open>__init__\<close> of the class 3 is the object 11
  and that of the class 9 is the object 12. The methods 10 and 13 are two candidates
  for \<^verbatim>\<open>C.__init__\<close>: the first has the docstring of the object 11, the second differs
  in one character.
\<close>

definition method_world :: "nat world" where
  "method_world = bare_world\<lparr>
     inspect_isclass := (\<lambda>ob. ob = 2 \<or> ob = 3 \<or> ob = 8 \<or> ob = 9),
     dunder_mro := (\<lambda>ob. if ob = 2 then [2, 8, 3, 9] else [ob]),
     getattr := (\<lambda>ob nm.
       if ob = 3 \<and> nm = ''__init__'' then Inr 11
       else if ob = 9 \<and> nm = ''__init__'' then Inr 12
       else Inl (Exn AttributeError nm)),
     inspect_getdoc := (\<lambda>ob.
       if ob = 10 \<or> ob = 11 then Some ''Set up.''
       else if ob = 13 then Some ''Set up!''
       else if ob = 12 then Some ''Initialize self.''
       else None),
     inspect_isfunction := (\<lambda>ob. ob = 10 \<or> ob = 11 \<or> ob = 13),
     inspect_signature := (\<lambda>ob. Inr 20),
     inspect_getsourcelines := (\<lambda>ob. Inr ([''def __init__(self): ...''], 3))\<rparr>"

text \<open>
  A module whose source \<^verbatim>\<open>inspect.getsource\<close> cannot give and whose file can be read
  and is empty, as an empty \<^verbatim>\<open>__init__.py\<close> is.
\<close>

definition empty_file_world :: "nat world" where
  "empty_file_world = bare_world\<lparr>
     inspect_ismodule := (\<lambda>ob. ob = 0),
     open_readlines := (\<lambda>fp. if fp = ''/src/mod.py'' then Inr [] else Inl (Exn OSError ''No such file or directory''))\<rparr>"

text \<open>
  A class \<^verbatim>\<open>K\<close> (object 1) of the module \<^verbatim>\<open>mod\<close> that declares two registries itself:
  \<^verbatim>\<open>__fields__\<close> (object 21) with the required field \<^verbatim>\<open>x\<close>, and \<^verbatim>\<open>_declared_fields\<close>
  (object 22) with the field \<^verbatim>\<open>y\<close>.
\<close>

definition model_world :: "nat world" where
  "model_world = bare_world\<lparr>
     inspect_isclass := (\<lambda>ob. ob = 1),
     dunder_mro := (\<lambda>ob. if ob = 1 then [1, 9] else [ob]),
     dunder_dict := (\<lambda>ob. if ob = 1 then [(''__fields__'', 21), (''_declared_fields'', 22)] else []),
     inspect_getmembers := (\<lambda>ob.
       if ob = 1 then [(''__fields__'', 21), (''_declared_fields'', 22)] else []),
     dict_items := (\<lambda>ob. if ob = 21 then [(''x'', 23)] else if ob = 22 then [(''y'', 24)] else []),
     field_required := (\<lambda>ob. ob = 23)\<rparr>"

text \<open>
  A module \<^verbatim>\<open>mod\<close> (object 0) that defines the functions \<^verbatim>\<open>_g\<close> (object 6) and \<^verbatim>\<open>f\<close>
  (object 5).
\<close>

definition filter_world :: "nat world" where
  "filter_world = bare_world\<lparr>
     importlib_import_module := (\<lambda>p.
       if p = ''mod'' then Inr 0 else Inl (Exn ImportError (''No module named '' @ quoted p))),
     dunder_name := (\<lambda>ob. if ob = 0 then ''mod'' else []),
     inspect_ismodule := (\<lambda>ob. ob = 0),
     inspect_getmembers := (\<lambda>ob. if ob = 0 then [(''_g'', 6), (''f'', 5)] else []),
     inspect_isfunction := (\<lambda>ob. ob = 5 \<or> ob = 6),
     inspect_getmodule := (\<lambda>ob. if ob = 5 \<or> ob = 6 then Some 0 else None),
     inspect_getsource := (\<lambda>ob. Inr ''def _g(): pass\<newline>def f(): pass\<newline>''),
     inspect_signature := (\<lambda>ob. Inr 20),
     inspect_getsourcelines := (\<lambda>ob. Inr ([''def f(): pass''], 2))\<rparr>"


text \<open>
  A diamond: the class \<^verbatim>\<open>C(A, B)\<close> (object 2) with \<^verbatim>\<open>A(X)\<close> (object 3), \<^verbatim>\<open>B(X)\<close> (object
  4) and \<^verbatim>\<open>X\<close> (object 5), so that the linearized order of \<^verbatim>\<open>C\<close> is \<^verbatim>\<open>C, A, B, X\<close>. \<^verbatim>\<open>B\<close>
  and \<^verbatim>\<open>X\<close> define \<^verbatim>\<open>__enter__\<close> (objects 14 and 15) and \<^verbatim>\<open>A\<close> does not, so
  \<^verbatim>\<open>getattr(A, "__enter__")\<close> is the function of \<^verbatim>\<open>X\<close>, which \<^verbatim>\<open>A\<close> inherits. The methods
  10 and 11 are two candidates for \<^verbatim>\<open>C.__enter__\<close>: the first has the docstring of the
  function of \<^verbatim>\<open>B\<close>, the second that of the function of \<^verbatim>\<open>X\<close>.
\<close>

definition diamond_world :: "nat world" where
  "diamond_world = bare_world\<lparr>
     inspect_isclass := (\<lambda>ob. ob = 2 \<or> ob = 3 \<or> ob = 4 \<or> ob = 5),
     dunder_mro := (\<lambda>ob.
       if ob = 2 then [2, 3, 4, 5] else if ob = 3 then [3, 5] else if ob = 4 then [4, 5]
       else [ob]),
     dunder_dict := (\<lambda>ob.
       if ob = 4 then [(''__enter__'', 14)] else if ob = 5 then [(''__enter__'', 15)] else []),
     getattr := (\<lambda>ob nm.
       if ob = 4 \<and> nm = ''__enter__'' then Inr 14
       else if (ob = 3 \<or> ob = 5) \<and> nm = ''__enter__'' then Inr 15
       else Inl (Exn AttributeError nm)),
     inspect_getdoc := (\<lambda>ob.
       if ob = 10 \<or> ob = 14 then Some ''Open the file.''
       else if ob = 11 \<or> ob = 15 then Some ''Open the resource.''
       else None),
     inspect_isfunction := (\<lambda>ob. ob = 10 \<or> ob = 11 \<or> ob = 14 \<or> ob = 15),
     inspect_signature := (\<lambda>ob. Inr 20),
     inspect_getsourcelines := (\<lambda>ob. Inr ([''def __enter__(self): ...''], 3))\<rparr>"

section \<open>Properties of the selector\<close>

subsection \<open>The regular expressions of the filters\<close>

lemma search_from_Bol_not_start: "search_from (Bol # as) False s = False"
  by (induction s) auto

lemma py_search_caret_underscore: "py_search ''^_'' s = (take 1 s = ''_'')"
  by (cases s) (auto simp: py_search_def search_from_Bol_not_start)

lemma match_here_literal_Eol:
  "match_here (map Lit lits @ [Eol]) at_start s = (s = lits \<or> s = lits @ [CHR 0x0A])"
proof (induction lits arbitrary: s at_start)
  case Nil
  then show ?case by simp
next
  case (Cons c cs)
  then show ?case by (cases s) auto
qed

lemma py_search_init:
  "py_search ''^__init__$'' s = (s = ''__init__'' \<or> s = ''__init__'' @ [CHR 0x0A])"
proof (cases s)
  case Nil
  then show ?thesis by (simp add: py_search_def)
next
  case (Cons d ds)
  have "py_search ''^__init__$'' s = match_here (map Lit ''__init__'' @ [Eol]) True s"
    using Cons search_from_Bol_not_start [of _ ds] by (simp add: py_search_def)
  then show ?thesis using match_here_literal_Eol [of "''__init__''" True s] by simp
qed

subsection \<open>The filter loop\<close>

lemma filter_loop_append:
  "filter_loop w (fs @ [(fltr, regex)]) nm keep =
     (if re_search w regex nm then \<not> startswith_bang fltr else filter_loop w fs nm keep)"
  by (induction fs arbitrary: keep) (auto simp: Let_def split: if_splits)

lemma filter_loop_no_match:
  "\<forall>fr \<in> set fs. \<not> re_search w (snd fr) nm \<Longrightarrow> filter_loop w fs nm keep = keep"
  by (induction fs arbitrary: keep) (auto simp: Let_def)

lemma filter_name_out_append:
  "filter_name_out w (Loader_init (fs @ [f]) inh) nm =
     (if re_search w (lstrip_bang f) nm then startswith_bang f
      else filter_name_out w (Loader_init fs inh) nm)"
  by (cases fs) (simp_all add: filter_name_out_def Loader_init_def filter_loop_append Let_def)

lemma select_no_names: "select w L nm (MSet {}) = Inr (\<not> filter_name_out w L nm)"
  by (simp add: select_def)

text \<open>
  C1, as the code has it. The sign of a filter is the reverse of the claim's: a filter
  written with a leading \<^verbatim>\<open>!\<close> excludes the names its pattern matches, a filter without
  it includes them again. With no explicit names and the filters \<^verbatim>\<open>["!^_"]\<close>, \<open>select\<close>
  excludes exactly the names with a leading underscore; with
  \<^verbatim>\<open>["!^_", "^__init__$"]\<close> it excludes the names with a leading underscore except
  those the pattern \<^verbatim>\<open>^__init__$\<close> matches, which are \<^verbatim>\<open>__init__\<close> and \<^verbatim>\<open>__init__\<close>
  followed by one newline. In general the last filter decides when its pattern matches
  the name (excluded if the filter starts with \<^verbatim>\<open>!\<close>, kept otherwise), and the earlier
  filters decide when it does not.
\<close>

theorem select_filter_chain:
  "select (w\<lparr>re_search := py_search\<rparr>) (Loader_init [''!^_''] inh) nm (MSet {})
     = Inr (take 1 nm \<noteq> ''_'')
   \<and> select (w\<lparr>re_search := py_search\<rparr>) (Loader_init [''!^_'', ''^__init__$''] inh) nm (MSet {})
     = Inr (nm = ''__init__'' \<or> nm = ''__init__'' @ [CHR 0x0A] \<or> take 1 nm \<noteq> ''_'')
   \<and> filter_name_out w (Loader_init (fs @ [f]) inh) nm
     = (if re_search w (lstrip_bang f) nm then startswith_bang f
        else filter_name_out w (Loader_init fs inh) nm)"
proof (intro conjI)
  show "select (w\<lparr>re_search := py_search\<rparr>) (Loader_init [''!^_''] inh) nm (MSet {})
     = Inr (take 1 nm \<noteq> ''_'')"
    by (simp add: select_no_names filter_name_out_def Loader_init_def lstrip_bang_def
        startswith_bang_def py_search_caret_underscore)
next
  show "select (w\<lparr>re_search := py_search\<rparr>) (Loader_init [''!^_'', ''^__init__$''] inh) nm (MSet {})
     = Inr (nm = ''__init__'' \<or> nm = ''__init__'' @ [CHR 0x0A] \<or> take 1 nm \<noteq> ''_'')"
    by (auto simp add: select_no_names filter_name_out_def Loader_init_def lstrip_bang_def
        startswith_bang_def py_search_caret_underscore py_search_init)
next
  show "filter_name_out w (Loader_init (fs @ [f]) inh) nm
     = (if re_search w (lstrip_bang f) nm then startswith_bang f
        else filter_name_out w (Loader_init fs inh) nm)"
    by (rule filter_name_out_append)
qed

text \<open>The theorem at \<^verbatim>\<open>_private\<close> and \<^verbatim>\<open>__init__\<close>.\<close>

theorem select_filter_chain_witness:
  "select (bare_world\<lparr>re_search := py_search\<rparr>) (Loader_init [''!^_''] False) ''_private'' (MSet {})
     = Inr False
   \<and> select (bare_world\<lparr>re_search := py_search\<rparr>) (Loader_init [''!^_'', ''^__init__$''] False)
       ''__init__'' (MSet {}) = Inr True
   \<and> filter_name_out bare_world (Loader_init ([''!^_''] @ [''^__init__$'']) False) ''__init__'' = False"
  using select_filter_chain [of bare_world False "''_private''" "[''!^_'']" "''^__init__$''"]
    select_filter_chain [of bare_world False "''__init__''" "[''!^_'']" "''^__init__$''"]
  by (simp add: bare_world_def lstrip_bang_def startswith_bang_def py_search_init)

text \<open>The claim as stated fails: with the single filter \<^verbatim>\<open>^_\<close>, not negated, the name
  \<^verbatim>\<open>_private\<close> matches the pattern and is selected, not excluded.\<close>

theorem select_filter_chain_counterexample:
  "select bare_world (Loader_init [''^_''] False) ''_private'' (MSet {}) = Inr True"
  by (simp add: select_no_names filter_name_out_def Loader_init_def lstrip_bang_def
      startswith_bang_def bare_world_def)

text \<open>
  C9. When the set of explicit names is not empty, \<open>select\<close> is membership in the
  set, whatever the filters and the regular expressions are. With no explicit names,
  every name is selected when there is no filter, and so is every name that no filter's
  pattern matches.
\<close>

theorem select_names_or_unmatched:
  "(names \<noteq> {} \<longrightarrow> select w L nm (MSet names) = Inr (nm \<in> names))
   \<and> (filters L = [] \<longrightarrow> select w L nm (MSet {}) = Inr True)
   \<and> ((\<forall>fr \<in> set (filters L). \<not> re_search w (snd fr) nm) \<longrightarrow> select w L nm (MSet {}) = Inr True)"
  by (simp add: select_def filter_name_out_def filter_loop_no_match)

text \<open>The theorem with the names \<^verbatim>\<open>{"_x", "y"}\<close>, with no filter, and with the filter
  \<^verbatim>\<open>!^_\<close> at a name it does not match.\<close>

theorem select_names_or_unmatched_witness:
  "select bare_world (Loader_init [''!^_''] False) ''_x'' (MSet {''_x'', ''y''}) = Inr True
   \<and> select bare_world (Loader_init [''!^_''] False) ''z'' (MSet {''_x'', ''y''}) = Inr False
   \<and> select bare_world (Loader_init [] False) ''_x'' (MSet {}) = Inr True
   \<and> select bare_world (Loader_init [''!^_''] False) ''z'' (MSet {}) = Inr True"
  using select_names_or_unmatched [of "{''_x'', ''y''}" bare_world "Loader_init [''!^_''] False" "''_x''"]
    select_names_or_unmatched [of "{''_x'', ''y''}" bare_world "Loader_init [''!^_''] False" "''z''"]
    select_names_or_unmatched [of "{}" bare_world "Loader_init [] False" "''_x''"]
    select_names_or_unmatched [of "{}" bare_world "Loader_init [''!^_''] False" "''z''"]
  by (simp add: Loader_init_def bare_world_def lstrip_bang_def py_search_caret_underscore)

section \<open>Properties of the resolver\<close>

subsection \<open>Sequencing, splitting and joining\<close>

lemma bind_Inl [simp]: "bind (Inl e) f = Inl e"
  by (simp add: bind_def)

lemma bind_Inr [simp]: "bind (Inr x) f = f x"
  by (simp add: bind_def)

lemma bind_eq_Inr: "bind m f = Inr y \<longleftrightarrow> (\<exists>x. m = Inr x \<and> f x = Inr y)"
  by (cases m) simp_all


lemma split_dot_not_Nil: "split_dot s \<noteq> []"
  by (induction s) (auto split: list.splits)

lemma join_split: "join_dot (split_dot s) = s"
proof (induction s)
  case Nil
  then show ?case by simp
next
  case (Cons c cs)
  show ?case
  proof (cases "split_dot cs")
    case Nil
    then show ?thesis using split_dot_not_Nil by blast
  next
    case (Cons x xs)
    then show ?thesis using Cons.IH by (cases xs) auto
  qed
qed

lemma join_dot_join: "xs \<noteq> [] \<Longrightarrow> join_dot (join_dot xs # ys) = join_dot (xs @ ys)"
proof (induction xs rule: join_dot.induct)
  case 1
  then show ?case by simp
next
  case (2 x)
  then show ?case by simp
next
  case (3 x y zs)
  then show ?case by (cases ys) auto
qed


lemma import_loop_prefix:
  "0 < k \<Longrightarrow> k \<le> length ms \<Longrightarrow>
   importlib_import_module w (join_dot (take k ms)) = Inr m \<Longrightarrow>
   \<forall>j. k < j \<and> j \<le> length ms \<longrightarrow>
     (\<exists>e. importlib_import_module w (join_dot (take j ms)) = Inl e \<and> exc_type e = ImportError) \<Longrightarrow>
   import_loop w ms os = Inr (m, drop k ms @ os)"
proof (induction w ms os rule: import_loop.induct)
  case (1 w ms os)
  show ?case
  proof (cases "k = length ms")
    case True
    then show ?thesis using "1.prems" by (subst import_loop.simps) simp
  next
    case False
    with "1.prems" have lt: "k < length ms" by simp
    then obtain e where e: "importlib_import_module w (join_dot ms) = Inl e"
      "exc_type e = ImportError"
      using "1.prems"(4) by (metis order_refl take_all)
    have l1: "length ms \<noteq> 1" using lt "1.prems"(1) by simp
    have ne: "ms \<noteq> []" using lt by auto
    have k': "k \<le> length (butlast ms)" using lt by simp
    have imp: "importlib_import_module w (join_dot (take k (butlast ms))) = Inr m"
      using "1.prems"(3) lt by (simp add: take_butlast)
    have pre: "\<forall>j. k < j \<and> j \<le> length (butlast ms) \<longrightarrow>
      (\<exists>e. importlib_import_module w (join_dot (take j (butlast ms))) = Inl e \<and> exc_type e = ImportError)"
      using "1.prems"(4) by (auto simp: take_butlast)
    have "import_loop w (butlast ms) (last ms # os) = Inr (m, drop k (butlast ms) @ last ms # os)"
      using "1.IH" [OF e(1) e(2) l1 ne "1.prems"(1) k' imp pre] .
    moreover have "drop k (butlast ms) @ [last ms] = drop k ms"
      using lt ne by (metis append_butlast_last_id drop_append k' diff_is_0_eq drop0)
    ultimately show ?thesis using e l1 ne
      by (subst import_loop.simps) simp
  qed
qed







lemma walk_objects_parts:
  "walk_objects w node ns = Inr leaf \<Longrightarrow>
   rev (parts leaf) = rev (parts node) @ ns \<and> root leaf = root node"
  by (induction ns arbitrary: node) (auto simp: bind_eq_Inr ObjectNode_init_def)

lemma real_parent_module_plain:
  "plain_chain w r node \<Longrightarrow> real = None \<or> real = Some r \<Longrightarrow> real_parent_module w real node = node"
proof (induction w real node rule: real_parent_module.induct)
  case (1 w real_module ob nm)
  then show ?case by simp
next
  case (2 w real_module ob nm p)
  then show ?case
    by (cases "parent p") (auto simp: Let_def split: if_splits)
qed

lemma walk_objects_resolved_not_Nil:
  "walk_objects w node ns = Inr leaf \<Longrightarrow> ns \<noteq> [] \<Longrightarrow> resolved_objects w (obj node) ns \<noteq> []"
  by (cases ns) (auto simp: bind_eq_Inr)

lemma walk_objects_plain:
  "walk_objects w node ns = Inr leaf \<Longrightarrow> plain_chain w r node \<Longrightarrow>
   (case parent node of None \<Rightarrow> obj node = r | Some q \<Rightarrow> ns = [] \<or> \<not> inspect_ismodule w (obj node)) \<Longrightarrow>
   \<forall>x \<in> set (resolved_objects w (obj node) ns).
      inspect_getmodule w x = None \<or> inspect_getmodule w x = Some r \<Longrightarrow>
   \<forall>x \<in> set (butlast (resolved_objects w (obj node) ns)). \<not> inspect_ismodule w x \<Longrightarrow>
   plain_chain w r leaf"
proof (induction ns arbitrary: node)
  case Nil
  then show ?case by simp
next
  case (Cons n ns)
  from Cons.prems(1) obtain x where x: "getattr w (obj node) n = Inr x"
    and walk: "walk_objects w (ObjectNode_init w x n (Some node)) ns = Inr leaf"
    by (auto simp: bind_eq_Inr)
  let ?node' = "ObjectNode_init w x n (Some node)"
  have res: "resolved_objects w (obj node) (n # ns)
      = inspect_unwrap w x # resolved_objects w (inspect_unwrap w x) ns"
    using x by simp
  have all: "\<forall>y \<in> set (inspect_unwrap w x # resolved_objects w (inspect_unwrap w x) ns).
      inspect_getmodule w y = None \<or> inspect_getmodule w y = Some r"
    using Cons.prems(4) unfolding res .
  have butl: "\<forall>y \<in> set (butlast (inspect_unwrap w x # resolved_objects w (inspect_unwrap w x) ns)).
      \<not> inspect_ismodule w y"
    using Cons.prems(5) unfolding res .
  have hd_ok: "inspect_getmodule w (inspect_unwrap w x) = None
      \<or> inspect_getmodule w (inspect_unwrap w x) = Some r"
    using all by simp
  have p1: "plain_chain w r ?node'"
    using Cons.prems(2,3) hd_ok by (cases node) (auto simp: ObjectNode_init_def split: option.splits)
  have p2: "(case parent ?node' of None \<Rightarrow> obj ?node' = r
             | Some q \<Rightarrow> ns = [] \<or> \<not> inspect_ismodule w (obj ?node'))"
  proof (cases "ns = []")
    case True
    then show ?thesis by (simp add: ObjectNode_init_def)
  next
    case False
    then have "resolved_objects w (inspect_unwrap w x) ns \<noteq> []"
      using walk_objects_resolved_not_Nil [OF walk] by (simp add: ObjectNode_init_def)
    then show ?thesis using butl by (simp add: ObjectNode_init_def)
  qed
  have p3: "\<forall>y \<in> set (resolved_objects w (obj ?node') ns).
      inspect_getmodule w y = None \<or> inspect_getmodule w y = Some r"
    using all by (simp add: ObjectNode_init_def)
  have p4: "\<forall>y \<in> set (butlast (resolved_objects w (obj ?node') ns)). \<not> inspect_ismodule w y"
    using butl by (auto simp: ObjectNode_init_def split: if_splits)
  show ?case using Cons.IH [OF walk p1 p2 p3 p4] .
qed

subsection \<open>The resolved chain\<close>

lemma resolver_world_pkg_mod_f:
  "get_object_tree resolver_world ''pkg.mod.f'' = Inr (Node 3 ''f'' (Some (Node 1 ''pkg.mod'' None)))"
  by (simp add: get_object_tree_def import_loop.simps resolver_world_def bare_world_def
      ObjectNode_init_def quoted_def)

lemma resolver_world_pkg_C:
  "get_object_tree resolver_world ''pkg.C'' = Inr (Node 2 ''C'' (Some (Node 1 ''pkg.mod'' None)))"
  by (simp add: get_object_tree_def import_loop.simps resolver_world_def bare_world_def
      ObjectNode_init_def quoted_def)

text \<open>
  C4, as the code has it. Let the path be not empty, let its first \<open>k\<close> segments be the
  longest prefix that imports, as a module \<open>m\<close> whose \<^verbatim>\<open>__name__\<close> is that prefix, and
  let the objects the remaining segments resolve to have no module of their own or the
  module \<open>m\<close>, none of them but the last being a module (so no parent is replaced by the
  real module). Then the leaf that \<open>get_object_tree\<close> returns has the input path as its
  dotted path, and the name of its root is the imported prefix: all \<open>k\<close> segments joined
  by dots, which is the first segment only when \<open>k = 1\<close>.
\<close>

theorem get_object_tree_dotted_path:
  assumes "path \<noteq> []"
    and "0 < k" and "k \<le> length (split_dot path)"
    and "importlib_import_module w (join_dot (take k (split_dot path))) = Inr m"
    and "\<forall>j. k < j \<and> j \<le> length (split_dot path) \<longrightarrow>
           (\<exists>e. importlib_import_module w (join_dot (take j (split_dot path))) = Inl e
                \<and> exc_type e = ImportError)"
    and "dunder_name w m = join_dot (take k (split_dot path))"
    and "\<forall>x \<in> set (resolved_objects w (inspect_unwrap w m) (drop k (split_dot path))).
           inspect_getmodule w x = None \<or> inspect_getmodule w x = Some (inspect_unwrap w m)"
    and "\<forall>x \<in> set (butlast (resolved_objects w (inspect_unwrap w m) (drop k (split_dot path)))).
           \<not> inspect_ismodule w x"
    and "get_object_tree w path = Inr leaf"
  shows "dotted_path leaf = path \<and> name (root leaf) = join_dot (take k (split_dot path))"
proof -
  let ?segs = "split_dot path"
  let ?root = "ObjectNode_init w m (dunder_name w m) None"
  have loop: "import_loop w ?segs [] = Inr (m, drop k ?segs)"
    using import_loop_prefix [OF assms(2,3,4,5), of "[]"] by simp
  from assms(9) obtain leaf0 where walk: "walk_objects w ?root (drop k ?segs) = Inr leaf0"
    and leaf: "leaf = real_parent_module w None leaf0"
    using assms(1) loop by (auto simp: get_object_tree_def bind_eq_Inr)
  have "plain_chain w (inspect_unwrap w m) leaf0"
    using walk_objects_plain [OF walk, of "inspect_unwrap w m"] assms(7,8)
    by (simp add: ObjectNode_init_def)
  then have same: "leaf = leaf0"
    using leaf real_parent_module_plain by fastforce
  have parts: "rev (parts leaf0) = [dunder_name w m] @ drop k ?segs" and rt: "root leaf0 = ?root"
    using walk_objects_parts [OF walk] by (simp_all add: ObjectNode_init_def)
  have "take k ?segs \<noteq> []" using assms(2,3) split_dot_not_Nil [of path] by (cases ?segs) auto
  then have "join_dot (join_dot (take k ?segs) # drop k ?segs) = join_dot ?segs"
    using join_dot_join [of "take k ?segs" "drop k ?segs"] by simp
  then have "dotted_path leaf0 = path"
    using parts assms(6) by (simp add: dotted_path_def join_split)
  moreover have "name (root leaf0) = join_dot (take k ?segs)"
    using rt assms(6) by (simp add: ObjectNode_init_def)
  ultimately show ?thesis using same by simp
qed

text \<open>The theorem at \<^verbatim>\<open>pkg.mod.f\<close>, with \<open>k = 2\<close>.\<close>

theorem get_object_tree_dotted_path_witness:
  "get_object_tree resolver_world ''pkg.mod.f'' = Inr (Node 3 ''f'' (Some (Node 1 ''pkg.mod'' None)))
   \<and> dotted_path (Node 3 ''f'' (Some (Node 1 ''pkg.mod'' None)) :: nat ObjectNode) = ''pkg.mod.f''
   \<and> name (root (Node 3 ''f'' (Some (Node 1 ''pkg.mod'' None)) :: nat ObjectNode)) = ''pkg.mod''"
proof -
  let ?w = resolver_world and ?p = "''pkg.mod.f''"
  have segs: "split_dot ?p = [''pkg'', ''mod'', ''f'']" by simp
  have h1: "?p \<noteq> []" by simp
  have h2: "0 < (2::nat)" by simp
  have h3: "2 \<le> length (split_dot ?p)" by simp
  have h4: "importlib_import_module ?w (join_dot (take 2 (split_dot ?p))) = Inr 1"
    by (simp add: resolver_world_def)
  have h5: "\<forall>j. 2 < j \<and> j \<le> length (split_dot ?p) \<longrightarrow>
      (\<exists>e. importlib_import_module ?w (join_dot (take j (split_dot ?p))) = Inl e
           \<and> exc_type e = ImportError)"
  proof (intro allI impI)
    fix j :: nat
    assume "2 < j \<and> j \<le> length (split_dot ?p)"
    then have "j = 3" unfolding segs by simp
    then show "\<exists>e. importlib_import_module ?w (join_dot (take j (split_dot ?p))) = Inl e
        \<and> exc_type e = ImportError"
      by (simp add: resolver_world_def)
  qed
  have h6: "dunder_name ?w 1 = join_dot (take 2 (split_dot ?p))"
    by (simp add: resolver_world_def)
  have res: "resolved_objects ?w (inspect_unwrap ?w 1) (drop 2 (split_dot ?p)) = [3]"
    by (simp add: resolver_world_def bare_world_def)
  have h7: "\<forall>x \<in> set (resolved_objects ?w (inspect_unwrap ?w 1) (drop 2 (split_dot ?p))).
      inspect_getmodule ?w x = None \<or> inspect_getmodule ?w x = Some (inspect_unwrap ?w 1)"
    unfolding res by (simp add: resolver_world_def bare_world_def)
  have h8: "\<forall>x \<in> set (butlast (resolved_objects ?w (inspect_unwrap ?w 1) (drop 2 (split_dot ?p)))).
      \<not> inspect_ismodule ?w x"
    unfolding res by simp
  note h9 = resolver_world_pkg_mod_f
  from get_object_tree_dotted_path [OF h1 h2 h3 h4 h5 h6 h7 h8 h9] h9
  show ?thesis by simp
qed

text \<open>
  The claim as stated fails twice. For \<^verbatim>\<open>pkg.mod.f\<close> the root is the node of the module
  \<^verbatim>\<open>pkg.mod\<close>, whose name is not the first segment \<^verbatim>\<open>pkg\<close>. For \<^verbatim>\<open>pkg.C\<close>, a class the
  package re-exports, the parent of the leaf is replaced by the node of the defining
  module, and the dotted path of the leaf is \<^verbatim>\<open>pkg.mod.C\<close>, not the input path.
\<close>

theorem get_object_tree_dotted_path_counterexample:
  "get_object_tree resolver_world ''pkg.mod.f'' = Inr (Node 3 ''f'' (Some (Node 1 ''pkg.mod'' None)))
   \<and> name (root (Node 3 ''f'' (Some (Node 1 ''pkg.mod'' None)) :: nat ObjectNode))
       \<noteq> hd (split_dot ''pkg.mod.f'')
   \<and> get_object_tree resolver_world ''pkg.C'' = Inr (Node 2 ''C'' (Some (Node 1 ''pkg.mod'' None)))
   \<and> dotted_path (Node 2 ''C'' (Some (Node 1 ''pkg.mod'' None)) :: nat ObjectNode) \<noteq> ''pkg.C''"
  using resolver_world_pkg_mod_f resolver_world_pkg_C by (simp add: dotted_path_def)

subsection \<open>Failures of the resolver\<close>






section \<open>Properties of functions, methods and attributes\<close>

lemma set_docstring_sel [simp]:
  "o_docstring (set_docstring d ent) = d"
  "o_name (set_docstring d ent) = o_name ent"
  "o_path (set_docstring d ent) = o_path ent"
  "o_properties (set_docstring d ent) = o_properties ent"
  "o_signature (set_docstring d ent) = o_signature ent"
  "o_source (set_docstring d ent) = o_source ent"
  "o_children (set_docstring d ent) = o_children ent"
  "o_category (set_docstring d ent) = o_category ent"
  by (cases ent; simp add: set_docstring_def)+

text \<open>
  C2. What the code does when \<^verbatim>\<open>inspect.signature\<close> raises. For a function, a TypeError is
  recorded in the errors with the dotted path, and the Function entity is built without
  a signature; any other exception, a ValueError among them, propagates. For a method,
  \<^verbatim>\<open>get_method_documentation\<close> reads the signature outside any \<^verbatim>\<open>try\<close>: whatever the
  exception, no Method entity is built and the call raises, and so does
  \<^verbatim>\<open>get_regular_method_documentation\<close>.
\<close>

theorem signature_failure:
  "(inspect_signature w (obj node) = Inl e \<and> exc_type e = TypeError
      \<and> inspect_getsourcelines w (obj node) = Inr (lines, lineno) \<and> file_path w node = Inr fp
    \<longrightarrow> get_function_documentation w node L
        = Inr (Function (name node) (dotted_path node) fp (inspect_getdoc w (obj node)) None
                 (Some (Source_lines lines lineno))
                 (if is_coroutine_function w node then [''async''] else []),
               L\<lparr>errors := errors L @
                 [''Couldn't get signature for '' @ quoted (dotted_path node) @ '': '' @ exc_str e]\<rparr>))
   \<and> (inspect_signature w (obj node) = Inl e \<and> exc_type e \<noteq> TypeError
    \<longrightarrow> get_function_documentation w node L = Inl e)
   \<and> (inspect_signature w (obj node) = Inl e
    \<longrightarrow> (\<exists>e'. get_method_documentation w node properties L = Inl e')
        \<and> (\<exists>e'. get_regular_method_documentation w node L = Inl e'))"
proof (intro conjI impI)
  assume "inspect_signature w (obj node) = Inl e \<and> exc_type e = TypeError
      \<and> inspect_getsourcelines w (obj node) = Inr (lines, lineno) \<and> file_path w node = Inr fp"
  then show "get_function_documentation w node L
        = Inr (Function (name node) (dotted_path node) fp (inspect_getdoc w (obj node)) None
                 (Some (Source_lines lines lineno))
                 (if is_coroutine_function w node then [''async''] else []),
               L\<lparr>errors := errors L @
                 [''Couldn't get signature for '' @ quoted (dotted_path node) @ '': '' @ exc_str e]\<rparr>)"
    by (simp add: get_function_documentation_def append_error_def Let_def)
next
  assume "inspect_signature w (obj node) = Inl e \<and> exc_type e \<noteq> TypeError"
  then show "get_function_documentation w node L = Inl e"
    by (simp add: get_function_documentation_def Let_def)
next
  assume a: "inspect_signature w (obj node) = Inl e"
  have m: "\<exists>e'. get_method_documentation w node props L = Inl e'" for props
    using a
    by (cases "inspect_getsourcelines w (obj node)"; cases "file_path w node")
       (auto simp: get_method_documentation_def Let_def split: prod.splits)
  show "\<exists>e'. get_method_documentation w node properties L = Inl e'" by (rule m)
  from m [of None] show "\<exists>e'. get_regular_method_documentation w node L = Inl e'"
    by (auto simp: get_regular_method_documentation_def Let_def)
qed

text \<open>The theorem at the function \<^verbatim>\<open>mod.f\<close> and at the static method \<^verbatim>\<open>mod.A.m\<close>.\<close>

theorem signature_failure_witness:
  "get_function_documentation signature_world (Node 5 ''f'' (Some (Node 0 ''mod'' None)))
       (Loader_init [] False)
     = Inr (Function ''f'' ''mod.f'' ''/src/mod.py'' None None (Some (Source ''def f(): pass'' 7)) [],
            \<lparr>filters = [], errors = [''Couldn't get signature for 'mod.f': unsupported callable''],
             select_inherited_members = False\<rparr>)
   \<and> is_staticmethod signature_world (Node 3 ''m'' (Some (Node 1 ''A'' (Some (Node 0 ''mod'' None)))))
   \<and> (\<exists>e'. get_method_documentation signature_world
          (Node 3 ''m'' (Some (Node 1 ''A'' (Some (Node 0 ''mod'' None)))))
          (Some [''staticmethod'']) (Loader_init [] False) = Inl e')"
proof -
  let ?w = signature_world and ?L = "Loader_init [] False"
  let ?f = "Node 5 ''f'' (Some (Node 0 ''mod'' None)) :: nat ObjectNode"
  let ?m = "Node 3 ''m'' (Some (Node 1 ''A'' (Some (Node 0 ''mod'' None)))) :: nat ObjectNode"
  have f: "inspect_signature ?w (obj ?f) = Inl (Exn TypeError ''unsupported callable'')
      \<and> exc_type (Exn TypeError ''unsupported callable'') = TypeError
      \<and> inspect_getsourcelines ?w (obj ?f) = Inr ([''def f(): pass''], 7)
      \<and> file_path ?w ?f = Inr ''/src/mod.py''"
    by (simp add: signature_world_def bare_world_def file_path_def)
  have m: "inspect_signature ?w (obj ?m)
      = Inl (Exn ValueError ''no signature found for builtin <built-in function min>'')"
    by (simp add: signature_world_def)
  have s: "is_staticmethod ?w ?m"
    by (simp add: is_staticmethod_def parent_is_class_def is_class_def signature_world_def)
  from signature_failure [of ?w ?f "Exn TypeError ''unsupported callable''" "[''def f(): pass'']" 7
      "''/src/mod.py''" ?L] f
    signature_failure [of ?w ?m "Exn ValueError ''no signature found for builtin <built-in function min>''"
      _ _ _ ?L "Some [''staticmethod'']"] m s
  show ?thesis
    by (simp add: Loader_init_def dotted_path_def quoted_def Source_lines_def
        is_coroutine_function_def signature_world_def bare_world_def)
qed

text \<open>
  C3. What the code does for a name that is absent from the declared-attribute map of
  its scope. \<^verbatim>\<open>get_attribute_documentation\<close> builds the Attribute with an empty
  docstring and no type, in the scope of a class and of a module.
  \<^verbatim>\<open>get_annotated_dataclass_field\<close> takes the same empty dictionary as default and then
  indexes it: it raises KeyError on \<^verbatim>\<open>"docstring"\<close>.
\<close>

theorem absent_attribute_data:
  "(parent node = Some p \<and> is_class w p
      \<and> map_of (get_class_attributes w (obj p)) (name node) = None \<and> file_path w node = Inr fp
    \<longrightarrow> get_attribute_documentation w node None
          = Inr (Attribute (name node) (dotted_path node) fp (Some []) None [] None)
        \<and> get_annotated_dataclass_field w node None = Inl (Exn KeyError (quoted ''docstring'')))
   \<and> (\<not> parent_is_class w node
      \<and> map_of (get_module_attributes w (obj (root node))) (name node) = None
      \<and> file_path w node = Inr fp
    \<longrightarrow> get_attribute_documentation w node None
          = Inr (Attribute (name node) (dotted_path node) fp (Some []) None [] None))"
  by (auto simp: get_attribute_documentation_def get_annotated_dataclass_field_def Let_def
      default_attribute_data_def attributes_get_def parent_is_class_def split: option.splits)

text \<open>The theorem at the field \<^verbatim>\<open>mod.A.x\<close> and at the module attribute \<^verbatim>\<open>mod.y\<close>.\<close>

theorem absent_attribute_data_witness:
  "get_attribute_documentation signature_world
       (Node 7 ''x'' (Some (Node 1 ''A'' (Some (Node 0 ''mod'' None))))) None
     = Inr (Attribute ''x'' ''mod.A.x'' ''/src/mod.py'' (Some []) None [] None)
   \<and> get_annotated_dataclass_field signature_world
       (Node 7 ''x'' (Some (Node 1 ''A'' (Some (Node 0 ''mod'' None))))) None
     = Inl (Exn KeyError (quoted ''docstring''))
   \<and> get_attribute_documentation signature_world (Node 6 ''y'' (Some (Node 0 ''mod'' None))) None
     = Inr (Attribute ''y'' ''mod.y'' ''/src/mod.py'' (Some []) None [] None)"
proof -
  let ?w = signature_world
  let ?x = "Node 7 ''x'' (Some (Node 1 ''A'' (Some (Node 0 ''mod'' None)))) :: nat ObjectNode"
  let ?y = "Node 6 ''y'' (Some (Node 0 ''mod'' None)) :: nat ObjectNode"
  have x: "parent ?x = Some (Node 1 ''A'' (Some (Node 0 ''mod'' None))) \<and>
      is_class ?w (Node 1 ''A'' (Some (Node 0 ''mod'' None)))
      \<and> map_of (get_class_attributes ?w (obj (Node 1 ''A'' (Some (Node 0 ''mod'' None))))) (name ?x) = None
      \<and> file_path ?w ?x = Inr ''/src/mod.py''"
    by (simp add: signature_world_def bare_world_def file_path_def is_class_def)
  have y: "\<not> parent_is_class ?w ?y
      \<and> map_of (get_module_attributes ?w (obj (root ?y))) (name ?y) = None
      \<and> file_path ?w ?y = Inr ''/src/mod.py''"
    by (simp add: signature_world_def bare_world_def file_path_def is_class_def parent_is_class_def)
  from absent_attribute_data [of ?x "Node 1 ''A'' (Some (Node 0 ''mod'' None))" ?w "''/src/mod.py''"] x
    absent_attribute_data [of ?y _ ?w "''/src/mod.py''"] y
  show ?thesis by (simp add: dotted_path_def)
qed

subsection \<open>Docstrings of special methods\<close>

lemma parent_classes_loop_first:
  "\<forall>c \<in> set pre. \<exists>e. getattr w c nm = Inl e \<and> exc_type e = AttributeError \<Longrightarrow>
   getattr w ancestor nm = Inr parent_method \<Longrightarrow>
   parent_classes_loop w (pre @ ancestor # post) nm docstring method
     = Inr (if docstring = inspect_getdoc w parent_method then set_docstring (Some []) method
            else method)"
  by (induction pre) auto

lemma get_method_documentation_docstring:
  "get_method_documentation w node props L = Inr (method, L') \<Longrightarrow>
   o_docstring method = inspect_getdoc w (obj node)"
  by (auto simp: get_method_documentation_def Method_def Let_def bind_eq_Inr
      split: prod.splits)

text \<open>
  C6, as the code has it. Let \<open>node\<close> be a method node whose name matches
  \<^verbatim>\<open>RE_SPECIAL\<close>, and \<open>method\<close> the entity \<^verbatim>\<open>get_method_documentation\<close> builds for it,
  whose docstring is the one \<^verbatim>\<open>inspect.getdoc\<close> resolves. Let \<open>ancestor\<close> be the first
  class after the parent class in its linearized order on which the lookup of the name
  succeeds (\<^verbatim>\<open>getattr\<close> raises AttributeError on the classes \<open>pre\<close> before it), and
  \<open>parent_method\<close> what the lookup finds there, which \<open>ancestor\<close> may inherit from a class
  later in the order. Then \<^verbatim>\<open>get_regular_method_documentation\<close> returns \<open>method\<close> with
  its docstring set to the empty string when the docstring of \<open>parent_method\<close> is equal
  to it, and \<open>method\<close> unchanged when the two differ.
\<close>

theorem special_method_docstring:
  assumes "get_method_documentation w node None L = Inr (method, L')"
    and "parent node = Some p"
    and "RE_SPECIAL_match w (name node)"
    and "tl (dunder_mro w (obj p)) = pre @ ancestor # post"
    and "\<forall>c \<in> set pre. \<exists>e. getattr w c (name node) = Inl e \<and> exc_type e = AttributeError"
    and "getattr w ancestor (name node) = Inr parent_method"
  shows "get_regular_method_documentation w node L
           = Inr (if inspect_getdoc w (obj node) = inspect_getdoc w parent_method
                  then set_docstring (Some []) method else method, L')
         \<and> o_docstring method = inspect_getdoc w (obj node)
         \<and> o_docstring (set_docstring (Some []) method) = Some []"
proof -
  have doc: "o_docstring method = inspect_getdoc w (obj node)"
    using get_method_documentation_docstring [OF assms(1)] .
  have "parent_classes_loop w (tl (dunder_mro w (obj p))) (name node) (o_docstring method) method
      = Inr (if o_docstring method = inspect_getdoc w parent_method
             then set_docstring (Some []) method else method)"
    unfolding assms(4) using parent_classes_loop_first [OF assms(5,6)] .
  then show ?thesis
    using assms(1,2,3) doc by (simp add: get_regular_method_documentation_def Let_def)
qed

lemma method_world_method:
  "ob = 10 \<or> ob = 13 \<Longrightarrow>
   get_method_documentation method_world
       (Node ob ''__init__'' (Some (Node 2 ''C'' (Some (Node 0 ''mod'' None))))) None
       (Loader_init [] False)
     = Inr (Method ''__init__'' ''mod.C.__init__'' ''/src/mod.py'' (inspect_getdoc method_world ob)
              (Some 20) [] (Some (Source ''def __init__(self): ...'' 3)),
            Loader_init [] False)"
  by (auto simp: get_method_documentation_def method_world_def bare_world_def Let_def
      dotted_path_def file_path_def Source_lines_def is_coroutine_function_def)

text \<open>The theorem at the two candidates for \<^verbatim>\<open>C.__init__\<close>: the docstring of the first is
  blanked, that of the second is kept.\<close>

theorem special_method_docstring_witness:
  "get_regular_method_documentation method_world
       (Node 10 ''__init__'' (Some (Node 2 ''C'' (Some (Node 0 ''mod'' None))))) (Loader_init [] False)
     = Inr (Method ''__init__'' ''mod.C.__init__'' ''/src/mod.py'' (Some [])
              (Some 20) [] (Some (Source ''def __init__(self): ...'' 3)),
            Loader_init [] False)
   \<and> get_regular_method_documentation method_world
       (Node 13 ''__init__'' (Some (Node 2 ''C'' (Some (Node 0 ''mod'' None))))) (Loader_init [] False)
     = Inr (Method ''__init__'' ''mod.C.__init__'' ''/src/mod.py'' (Some ''Set up!'')
              (Some 20) [] (Some (Source ''def __init__(self): ...'' 3)),
            Loader_init [] False)"
proof -
  let ?w = method_world and ?L = "Loader_init [] False"
  let ?C = "Node 2 ''C'' (Some (Node 0 ''mod'' None)) :: nat ObjectNode"
  let ?same = "Node 10 ''__init__'' (Some ?C)" and ?other = "Node 13 ''__init__'' (Some ?C)"
  have special: "RE_SPECIAL_match ?w ''__init__''"
    by (simp add: method_world_def bare_world_def)
  have mro: "tl (dunder_mro ?w (obj ?C)) = [8] @ 3 # [9]"
    by (simp add: method_world_def)
  have pre: "\<forall>c \<in> set [8]. \<exists>e. getattr ?w c ''__init__'' = Inl e \<and> exc_type e = AttributeError"
    by (simp add: method_world_def)
  have anc: "getattr ?w 3 ''__init__'' = Inr 11"
    by (simp add: method_world_def)
  have docs: "inspect_getdoc ?w 10 = Some ''Set up.''" "inspect_getdoc ?w 13 = Some ''Set up!''"
    "inspect_getdoc ?w 11 = Some ''Set up.''"
    by (simp_all add: method_world_def)
  have a: "get_regular_method_documentation ?w ?same ?L
      = Inr (set_docstring (Some []) (Method ''__init__'' ''mod.C.__init__'' ''/src/mod.py''
               (inspect_getdoc ?w 10) (Some 20) [] (Some (Source ''def __init__(self): ...'' 3))), ?L)"
    using special_method_docstring [of ?w ?same ?L _ ?L ?C "[8]" 3 "[9]" 11,
        OF method_world_method [of 10]] special mro pre anc docs
    by simp
  have b: "get_regular_method_documentation ?w ?other ?L
      = Inr (Method ''__init__'' ''mod.C.__init__'' ''/src/mod.py''
               (inspect_getdoc ?w 13) (Some 20) [] (Some (Source ''def __init__(self): ...'' 3)), ?L)"
    using special_method_docstring [of ?w ?other ?L _ ?L ?C "[8]" 3 "[9]" 11,
        OF method_world_method [of 13]] special mro pre anc docs
    by simp
  show ?thesis using a b docs by (simp add: set_docstring_def Method_def)
qed

text \<open>
  The claim as stated fails, both ways, in a diamond. The first ancestor of \<^verbatim>\<open>C\<close> that
  defines \<^verbatim>\<open>__enter__\<close> is \<^verbatim>\<open>B\<close>; the loop stops before it, at \<^verbatim>\<open>A\<close>, where the lookup
  finds the function that \<^verbatim>\<open>A\<close> inherits from \<^verbatim>\<open>X\<close>. So a docstring of \<^verbatim>\<open>C.__enter__\<close>
  identical to that of \<^verbatim>\<open>B.__enter__\<close> is kept, not blanked; and one that differs from
  it, and is identical to that of \<^verbatim>\<open>X.__enter__\<close>, is blanked, not kept.
\<close>

theorem special_method_docstring_counterexample:
  "RE_SPECIAL_match diamond_world ''__enter__''
   \<and> tl (dunder_mro diamond_world 2) = [3, 4, 5]
   \<and> first_defining_ancestor diamond_world 2 ''__enter__'' = Some 4
   \<and> map_of (dunder_dict diamond_world 4) ''__enter__'' = Some 14
   \<and> inspect_getdoc diamond_world 14 = Some ''Open the file.''
   \<and> inspect_getdoc diamond_world 10 = Some ''Open the file.''
   \<and> get_regular_method_documentation diamond_world
       (Node 10 ''__enter__'' (Some (Node 2 ''C'' (Some (Node 0 ''mod'' None))))) (Loader_init [] False)
     = Inr (Method ''__enter__'' ''mod.C.__enter__'' ''/src/mod.py'' (Some ''Open the file.'')
              (Some 20) [] (Some (Source ''def __enter__(self): ...'' 3)),
            Loader_init [] False)
   \<and> inspect_getdoc diamond_world 11 = Some ''Open the resource.''
   \<and> get_regular_method_documentation diamond_world
       (Node 11 ''__enter__'' (Some (Node 2 ''C'' (Some (Node 0 ''mod'' None))))) (Loader_init [] False)
     = Inr (Method ''__enter__'' ''mod.C.__enter__'' ''/src/mod.py'' (Some [])
              (Some 20) [] (Some (Source ''def __enter__(self): ...'' 3)),
            Loader_init [] False)"
  by code_simp

section \<open>Properties of the module builder\<close>

subsection \<open>Loops and the error list\<close>

lemma for_each_invariant:
  "for_each body xs s = Inr s' \<Longrightarrow> P s \<Longrightarrow>
   (\<forall>x \<in> set xs. \<forall>t t'. P t \<longrightarrow> body x t = Inr t' \<longrightarrow> P t') \<Longrightarrow> P s'"
proof (induction xs arbitrary: s)
  case Nil
  then have "s' = s" by simp
  then show ?case using Nil.prems(2) by blast
next
  case (Cons x xs)
  from Cons.prems(1) obtain t where t: "body x s = Inr t" and rest: "for_each body xs t = Inr s'"
    by (auto simp: bind_eq_Inr)
  have step: "\<forall>u u'. P u \<longrightarrow> body x u = Inr u' \<longrightarrow> P u'"
    using Cons.prems(3) by (meson list.set_intros(1))
  have later: "\<forall>y \<in> set xs. \<forall>u u'. P u \<longrightarrow> body y u = Inr u' \<longrightarrow> P u'"
    using Cons.prems(3) by (meson list.set_intros(2))
  from step Cons.prems(2) t have "P t" by blast
  then show ?case by (rule Cons.IH [OF rest _ later])
qed

lemma errors_extended_refl [simp]: "errors_extended L L"
  by (simp add: errors_extended_def)

lemma errors_extended_trans: "errors_extended L L' \<Longrightarrow> errors_extended L' L'' \<Longrightarrow> errors_extended L L''"
  by (auto simp: errors_extended_def)

lemma get_function_documentation_errors:
  "get_function_documentation w node L = Inr (ent, L') \<Longrightarrow> errors_extended L L'"
  by (cases "inspect_signature w (obj node)"; cases "inspect_getsourcelines w (obj node)";
      cases "file_path w node")
     (auto simp: get_function_documentation_def Let_def errors_extended_def append_error_def
       split: if_splits prod.splits)

lemma get_method_documentation_errors:
  "get_method_documentation w node props L = Inr (ent, L') \<Longrightarrow> errors_extended L L'"
  by (cases "inspect_signature w (obj node)"; cases "inspect_getsourcelines w (obj node)";
      cases "file_path w node")
     (auto simp: get_method_documentation_def Let_def errors_extended_def append_error_def
       split: if_splits prod.splits)

lemma get_regular_method_documentation_errors:
  "get_regular_method_documentation w node L = Inr (ent, L') \<Longrightarrow> errors_extended L L'"
  unfolding get_regular_method_documentation_def Let_def
  by (auto simp: bind_eq_Inr split: option.splits if_splits dest: get_method_documentation_errors)

lemma get_property_documentation_errors:
  "get_property_documentation w node L = Inr (ent, L') \<Longrightarrow> errors_extended L L'"
  by (cases "inspect_signature w (property_fget w (obj node))";
      cases "inspect_getsourcelines w (property_fget w (obj node))"; cases "file_path w node")
     (auto simp: get_property_documentation_def Let_def errors_extended_def append_error_def
       split: if_splits prod.splits)


lemma add_child_sel [simp]:
  "o_source (add_child r c) = o_source r"
  "o_properties (add_child r c) = o_properties r"
  "o_children (add_child r c) = o_children r @ [c]"
  "o_name (add_child r c) = o_name r"
  "o_path (add_child r c) = o_path r"
  by (cases r; simp add: add_child_def)+

lemma set_properties_sel [simp]:
  "o_properties (set_properties ps ent) = ps"
  "o_children (set_properties ps ent) = o_children ent"
  "o_source (set_properties ps ent) = o_source ent"
  by (cases ent; simp add: set_properties_def)+

lemma document_class_member_errors:
  assumes "document_class_member rec w node attrs inh item st = Inr st'"
    and "\<forall>n sm L r L'. rec n sm L = Inr (r, L') \<longrightarrow> errors_extended L L'"
  shows "errors_extended (snd st) (snd st')"
proof -
  let ?child = "ObjectNode_init w (snd item) (fst item) (Some node)"
  consider (cls) "is_class w ?child"
    | (cm) "\<not> is_class w ?child" "is_classmethod w ?child"
    | (sm) "\<not> is_class w ?child" "\<not> is_classmethod w ?child" "is_staticmethod w ?child"
    | (m) "\<not> is_class w ?child" "\<not> is_classmethod w ?child" "\<not> is_staticmethod w ?child"
        "is_method w ?child"
    | (p) "\<not> is_class w ?child" "\<not> is_classmethod w ?child" "\<not> is_staticmethod w ?child"
        "\<not> is_method w ?child" "is_property w ?child"
    | (a) "\<not> is_class w ?child" "\<not> is_classmethod w ?child" "\<not> is_staticmethod w ?child"
        "\<not> is_method w ?child" "\<not> is_property w ?child"
    by blast
  then show ?thesis
  proof cases
    case cls
    with assms(1) obtain ent L1 where "rec ?child MNone (snd st) = Inr (ent, L1)" "snd st' = L1"
      by (auto simp: document_class_member_def Let_def bind_eq_Inr)
    then show ?thesis using assms(2) by auto
  next
    case cm
    with assms(1) obtain ent L1 where
      "get_method_documentation w ?child (Some [''classmethod'']) (snd st) = Inr (ent, L1)" "snd st' = L1"
      by (auto simp: document_class_member_def Let_def bind_eq_Inr get_classmethod_documentation_def)
    then show ?thesis using get_method_documentation_errors by auto
  next
    case sm
    with assms(1) obtain ent L1 where
      "get_method_documentation w ?child (Some [''staticmethod'']) (snd st) = Inr (ent, L1)" "snd st' = L1"
      by (auto simp: document_class_member_def Let_def bind_eq_Inr get_staticmethod_documentation_def)
    then show ?thesis using get_method_documentation_errors by auto
  next
    case m
    with assms(1) obtain ent L1 where
      "get_regular_method_documentation w ?child (snd st) = Inr (ent, L1)" "snd st' = L1"
      by (auto simp: document_class_member_def Let_def bind_eq_Inr)
    then show ?thesis using get_regular_method_documentation_errors by auto
  next
    case p
    with assms(1) obtain ent L1 where
      "get_property_documentation w ?child (snd st) = Inr (ent, L1)" "snd st' = L1"
      by (auto simp: document_class_member_def Let_def bind_eq_Inr)
    then show ?thesis using get_property_documentation_errors by auto
  next
    case a
    with assms(1) have "snd st' = snd st"
      by (auto simp: document_class_member_def Let_def bind_eq_Inr split: option.splits)
    then show ?thesis by simp
  qed
qed

lemma class_documentation_errors:
  assumes "class_documentation rec w node sm L = Inr (ent, L')"
    and "\<forall>n sm L r L'. rec n sm L = Inr (r, L') \<longrightarrow> errors_extended L L'"
  shows "errors_extended L L'"
proof (cases "sm = MBool False")
  case True
  then show ?thesis using assms(1)
    by (auto simp: class_documentation_def Let_def bind_eq_Inr)
next
  case False
  from assms(1) False obtain root0 attrs inh members root1 where
    loop: "for_each (document_class_member rec w node attrs inh) members (root0, L) = Inr (root1, L')"
    by (auto simp: class_documentation_def Let_def bind_eq_Inr)
  have "errors_extended L (snd (root1, L'))"
  proof (rule for_each_invariant [OF loop, where P = "\<lambda>st. errors_extended L (snd st)"])
    show "errors_extended L (snd (root0, L))" by simp
    show "\<forall>x \<in> set members. \<forall>t t'. errors_extended L (snd t) \<longrightarrow>
        document_class_member rec w node attrs inh x t = Inr t' \<longrightarrow> errors_extended L (snd t')"
      using document_class_member_errors [OF _ assms(2)] errors_extended_trans by blast
  qed
  then show ?thesis by simp
qed

lemma get_class_documentation_errors:
  "get_class_documentation depth w node sm L = Inr (ent, L') \<Longrightarrow> errors_extended L L'"
proof (induction depth arbitrary: node sm L ent L')
  case 0
  then show ?case by simp
next
  case (Suc depth)
  show ?case
    by (rule class_documentation_errors [of "get_class_documentation depth w"])
       (use Suc in auto)
qed

subsection \<open>The source of a module\<close>

lemma module_source_errors:
  "module_source w node L = Inr (src, L1) \<Longrightarrow> errors_extended L L1"
  by (cases "inspect_getsource w (obj node)"; cases "file_path w node";
      cases "bind (file_path w node) (open_readlines w)")
     (auto simp: module_source_def Let_def errors_extended_def append_error_def split: if_splits)

lemma module_source_both_fail:
  "inspect_getsource w (obj node) = Inl e1 \<Longrightarrow> exc_type e1 = OSError \<Longrightarrow>
   file_path w node = Inr fp \<Longrightarrow> open_readlines w fp = Inl e2 \<Longrightarrow> exc_type e2 = OSError \<Longrightarrow>
   module_source w node L
     = Inr (None, append_error
         (''Couldn't read source for '' @ quoted (dotted_path node) @ '': '' @ exc_str e1) L)"
  by (simp add: module_source_def Let_def)

lemma module_source_empty_file:
  "inspect_getsource w (obj node) = Inl e1 \<Longrightarrow> exc_type e1 = OSError \<Longrightarrow>
   file_path w node = Inr fp \<Longrightarrow> open_readlines w fp = Inr [] \<Longrightarrow>
   module_source w node L = Inr (None, L)"
  by (simp add: module_source_def Let_def)

lemma document_module_member_step:
  assumes "document_module_member rec_class w node sm attrs item st = Inr st'"
    and "\<forall>n sm L r L'. rec_class n sm L = Inr (r, L') \<longrightarrow> errors_extended L L'"
  shows "errors_extended (snd st) (snd st') \<and> o_source (fst st') = o_source (fst st)"
proof -
  let ?child = "ObjectNode_init w (snd item) (fst item) (Some node)"
  from assms(1) obtain selected where sel: "select w (snd st) (fst item) sm = Inr selected"
    by (auto simp: document_module_member_def Let_def bind_eq_Inr)
  consider (skip) "\<not> selected"
    | (cls) "selected" "is_class w ?child \<and> Some (obj (root node)) = inspect_getmodule w (snd item)"
    | (fn) "selected" "\<not> (is_class w ?child \<and> Some (obj (root node)) = inspect_getmodule w (snd item))"
        "is_function w ?child \<and> Some (obj (root node)) = inspect_getmodule w (snd item)"
    | (attr) "selected" "\<not> (is_class w ?child \<and> Some (obj (root node)) = inspect_getmodule w (snd item))"
        "\<not> (is_function w ?child \<and> Some (obj (root node)) = inspect_getmodule w (snd item))"
    by blast
  then show ?thesis
  proof cases
    case skip
    with assms(1) sel have "st' = st"
      by (simp add: document_module_member_def Let_def)
    then show ?thesis by simp
  next
    case cls
    with assms(1) sel obtain ent L1 where "rec_class ?child MNone (snd st) = Inr (ent, L1)"
      "st' = (add_child (fst st) ent, L1)"
      by (auto simp: document_module_member_def Let_def bind_eq_Inr)
    then show ?thesis using assms(2) by auto
  next
    case fn
    with assms(1) sel obtain ent L1 where "get_function_documentation w ?child (snd st) = Inr (ent, L1)"
      "st' = (add_child (fst st) ent, L1)"
      by (auto simp: document_module_member_def Let_def bind_eq_Inr)
    then show ?thesis using get_function_documentation_errors by auto
  next
    case attr
    with assms(1) sel have "snd st' = snd st \<and> o_source (fst st') = o_source (fst st)"
      by (auto simp: document_module_member_def Let_def bind_eq_Inr split: option.splits)
    then show ?thesis by simp
  qed
qed

lemma document_submodule_step:
  assumes "document_submodule rec_module w path sm modname st = Inr st'"
    and "\<forall>n sm L r L'. rec_module n sm L = Inr (r, L') \<longrightarrow> errors_extended L L'"
  shows "errors_extended (snd st) (snd st') \<and> o_source (fst st') = o_source (fst st)"
proof -
  from assms(1) obtain selected where sel: "select w (snd st) modname sm = Inr selected"
    by (auto simp: document_submodule_def Let_def bind_eq_Inr)
  show ?thesis
  proof (cases selected)
    case False
    with assms(1) sel have "st' = st" by (simp add: document_submodule_def Let_def)
    then show ?thesis by simp
  next
    case True
    with assms(1) sel obtain leaf ent L1 where "rec_module leaf MNone (snd st) = Inr (ent, L1)"
      "st' = (add_child (fst st) ent, L1)"
      by (auto simp: document_submodule_def Let_def bind_eq_Inr)
    then show ?thesis using assms(2) by auto
  qed
qed

lemma module_documentation_source:
  assumes "module_documentation rec_class rec_module w node sm L = Inr (ent, L')"
    and "\<forall>n sm L r L'. rec_class n sm L = Inr (r, L') \<longrightarrow> errors_extended L L'"
    and "\<forall>n sm L r L'. rec_module n sm L = Inr (r, L') \<longrightarrow> errors_extended L L'"
  shows "\<exists>src L1. module_source w node L = Inr (src, L1) \<and> o_source ent = src
           \<and> errors_extended L1 L'"
proof -
  from assms(1) obtain src L1 fp where ms: "module_source w node L = Inr (src, L1)"
    and fp: "file_path w node = Inr fp"
    by (auto simp: module_documentation_def Let_def bind_eq_Inr)
  let ?root = "Module (last (split_dot (dotted_path node))) (dotted_path node) fp
      (inspect_getdoc w (obj node)) src :: 'a Object"
  let ?P = "\<lambda>st. errors_extended L1 (snd st) \<and> o_source (fst st) = src"
  have root: "o_source ?root = src" by (simp add: Module_def)
  show ?thesis
  proof (cases "sm = MBool False")
    case True
    with assms(1) ms fp have "ent = ?root \<and> L' = L1"
      by (auto simp: module_documentation_def Let_def)
    then show ?thesis using ms root by auto
  next
    case False
    let ?body = "document_module_member rec_class w node (or_set sm) (get_module_attributes w (obj node))"
    from assms(1) ms fp False obtain st1 where
      loop1: "for_each ?body (inspect_getmembers w (obj node)) (?root, L1) = Inr st1"
      and rest: "(case pkgutil_iter_modules w (obj node) of None \<Rightarrow> Inr st1
          | Some modnames \<Rightarrow>
              for_each (document_submodule rec_module w (dotted_path node) (or_set sm)) modnames st1)
          = Inr (ent, L')"
      by (auto simp: module_documentation_def Let_def bind_eq_Inr)
    have p1: "?P st1"
    proof (rule for_each_invariant [OF loop1, where P = ?P])
      show "?P (?root, L1)" using root by simp
      show "\<forall>x \<in> set (inspect_getmembers w (obj node)). \<forall>t t'.
          ?P t \<longrightarrow> ?body x t = Inr t' \<longrightarrow> ?P t'"
        using document_module_member_step [OF _ assms(2)] errors_extended_trans by metis
    qed
    have "?P (ent, L')"
    proof (cases "pkgutil_iter_modules w (obj node)")
      case None
      then show ?thesis using rest p1 by simp
    next
      case (Some modnames)
      then have loop2: "for_each (document_submodule rec_module w (dotted_path node) (or_set sm))
          modnames st1 = Inr (ent, L')"
        using rest by simp
      show ?thesis
      proof (rule for_each_invariant [OF loop2, where P = ?P])
        show "?P st1" by (rule p1)
        show "\<forall>x \<in> set modnames. \<forall>t t'. ?P t \<longrightarrow>
            document_submodule rec_module w (dotted_path node) (or_set sm) x t = Inr t' \<longrightarrow> ?P t'"
          using document_submodule_step [OF _ assms(3)] errors_extended_trans by metis
      qed
    qed
    then show ?thesis using ms by auto
  qed
qed

lemma get_module_documentation_source:
  "get_module_documentation depth w node sm L = Inr (ent, L') \<Longrightarrow>
   \<exists>src L1. module_source w node L = Inr (src, L1) \<and> o_source ent = src \<and> errors_extended L1 L'"
proof (induction depth arbitrary: node sm L ent L')
  case 0
  then show ?case by simp
next
  case (Suc depth)
  have rec_module: "\<forall>n sm L r L'. get_module_documentation depth w n sm L = Inr (r, L')
      \<longrightarrow> errors_extended L L'"
    using Suc.IH module_source_errors errors_extended_trans by blast
  have rec_class: "\<forall>n sm L r L'. get_class_documentation depth w n sm L = Inr (r, L')
      \<longrightarrow> errors_extended L L'"
    using get_class_documentation_errors by blast
  from Suc.prems show ?case
    using module_documentation_source [OF _ rec_class rec_module] by simp
qed

text \<open>
  C8, as the code has it. Let \<^verbatim>\<open>get_module_documentation\<close> return a Module entity, and
  let \<^verbatim>\<open>inspect.getsource\<close> raise OSError on the module. If reading the module's file
  raises OSError as well, the source of the entity is absent and the error list is
  extended by the message that names the module's dotted path and the first error
  (followed by the errors of the members). If the file is read and is empty, the source
  is absent too, and the source stage records no error.
\<close>

theorem module_source_absent:
  assumes "get_module_documentation depth w node select_members L = Inr (ent, L')"
    and "inspect_getsource w (obj node) = Inl e1" and "exc_type e1 = OSError"
    and "file_path w node = Inr fp"
  shows "(\<forall>e2. open_readlines w fp = Inl e2 \<and> exc_type e2 = OSError \<longrightarrow>
            o_source ent = None \<and>
            (\<exists>rest. errors L' = errors L @
               [''Couldn't read source for '' @ quoted (dotted_path node) @ '': '' @ exc_str e1] @ rest))
         \<and> (open_readlines w fp = Inr [] \<longrightarrow>
            o_source ent = None \<and> module_source w node L = Inr (None, L))"
proof -
  from get_module_documentation_source [OF assms(1)] obtain src L1 where
    ms: "module_source w node L = Inr (src, L1)" and src: "o_source ent = src"
    and ext: "errors_extended L1 L'"
    by blast
  show ?thesis
  proof (intro conjI allI impI)
    fix e2
    assume e2: "open_readlines w fp = Inl e2 \<and> exc_type e2 = OSError"
    with module_source_both_fail [OF assms(2,3,4), of e2 L] ms
    have *: "src = None" "L1 = append_error
        (''Couldn't read source for '' @ quoted (dotted_path node) @ '': '' @ exc_str e1) L"
      by simp_all
    show "o_source ent = None" using src * by simp
    show "\<exists>rest. errors L' = errors L @
        [''Couldn't read source for '' @ quoted (dotted_path node) @ '': '' @ exc_str e1] @ rest"
      using ext *(2) by (auto simp: errors_extended_def append_error_def)
  next
    assume e: "open_readlines w fp = Inr []"
    with module_source_empty_file [OF assms(2,3,4), of L] ms src
    show "o_source ent = None" by simp
    from e module_source_empty_file [OF assms(2,3,4), of L]
    show "module_source w node L = Inr (None, L)" by simp
  qed
qed

lemma bare_module:
  "get_module_documentation 1 bare_world (Node 0 ''pkg'' None) MNone (Loader_init [] False)
     = Inr (Module ''pkg'' ''pkg'' ''/src/mod.py'' None None,
            \<lparr>filters = [], errors = [''Couldn't read source for 'pkg': source code not available''],
             select_inherited_members = False\<rparr>)"
  by (simp add: module_documentation_def module_source_def Let_def bare_world_def
      dotted_path_def file_path_def or_set_def Loader_init_def append_error_def quoted_def)

text \<open>The theorem at a module whose file cannot be read.\<close>

theorem module_source_absent_witness:
  "get_module_documentation 1 bare_world (Node 0 ''pkg'' None) MNone (Loader_init [] False)
     = Inr (Module ''pkg'' ''pkg'' ''/src/mod.py'' None None,
            \<lparr>filters = [], errors = [''Couldn't read source for 'pkg': source code not available''],
             select_inherited_members = False\<rparr>)
   \<and> o_source (Module ''pkg'' ''pkg'' ''/src/mod.py'' None None :: nat Object) = None
   \<and> (\<exists>rest. [''Couldn't read source for 'pkg': source code not available'']
         = errors (Loader_init [] False) @
           [''Couldn't read source for '' @ quoted (dotted_path (Node 0 ''pkg'' None :: nat ObjectNode))
              @ '': '' @ ''source code not available''] @ rest)"
proof -
  have a: "inspect_getsource bare_world (obj (Node 0 ''pkg'' None))
      = Inl (Exn OSError ''source code not available'')"
    and b: "exc_type (Exn OSError ''source code not available'') = OSError"
    and c: "file_path bare_world (Node 0 ''pkg'' None) = Inr ''/src/mod.py''"
    and d: "open_readlines bare_world ''/src/mod.py'' = Inl (Exn OSError ''No such file or directory'')
        \<and> exc_type (Exn OSError ''No such file or directory'') = OSError"
    by (simp_all add: bare_world_def file_path_def)
  from module_source_absent [OF bare_module a b c] d bare_module
  show ?thesis by simp
qed

text \<open>
  The claim as stated fails: the module of \<open>empty_file_world\<close> is emitted with an
  absent source and the error list stays empty.
\<close>

theorem module_source_absent_counterexample:
  "get_module_documentation 1 empty_file_world (Node 0 ''pkg'' None) MNone (Loader_init [] False)
     = Inr (Module ''pkg'' ''pkg'' ''/src/mod.py'' None None, Loader_init [] False)
   \<and> o_source (Module ''pkg'' ''pkg'' ''/src/mod.py'' None None :: nat Object) = None
   \<and> errors (Loader_init [] False) = []"
  by (simp add: module_documentation_def module_source_def Let_def empty_file_world_def bare_world_def
      dotted_path_def file_path_def or_set_def Loader_init_def Module_def)

section \<open>Properties of the class builder\<close>

subsection \<open>Tags of the members and of the fields\<close>

lemma field_tags_simps [simp]:
  "field_tags (add_child r c) = field_tags r"
  "field_tags (set_docstring d ent) = field_tags ent"
  by (simp_all add: field_tags_def)

lemma parent_classes_loop_properties:
  "parent_classes_loop w cs nm doc method = Inr m' \<Longrightarrow> o_properties m' = o_properties method"
  by (induction cs) (auto split: sum.splits if_splits)

lemma get_method_documentation_tags:
  "get_method_documentation w node props L = Inr (ent, L') \<Longrightarrow>
   set (o_properties ent) \<subseteq> (case props of None \<Rightarrow> {} | Some ps \<Rightarrow> set ps) \<union> {''async''}"
  by (cases "inspect_signature w (obj node)"; cases "inspect_getsourcelines w (obj node)";
      cases "file_path w node"; cases props)
     (auto simp: get_method_documentation_def Let_def Method_def split: if_splits prod.splits)

lemma get_regular_method_documentation_tags:
  assumes "get_regular_method_documentation w node L = Inr (ent, L')"
  shows "set (o_properties ent) \<subseteq> {''async''}"
proof -
  from assms obtain meth where m: "get_method_documentation w node None L = Inr (meth, L')"
    and r: "ent = meth \<or> (\<exists>cs. parent_classes_loop w cs (name node) (o_docstring meth) meth = Inr ent)"
    by (auto simp: get_regular_method_documentation_def Let_def bind_eq_Inr
        split: option.splits if_splits)
  from r have "o_properties ent = o_properties meth"
    using parent_classes_loop_properties by blast
  then show ?thesis using get_method_documentation_tags [OF m] by simp
qed

lemma get_property_documentation_tags:
  "get_property_documentation w node L = Inr (ent, L') \<Longrightarrow>
   set (o_properties ent) \<subseteq> {''property'', ''readonly'', ''writable''}"
  by (cases "inspect_signature w (property_fget w (obj node))";
      cases "inspect_getsourcelines w (property_fget w (obj node))"; cases "file_path w node")
     (auto simp: get_property_documentation_def Let_def Attribute_def split: if_splits prod.splits)

lemma get_attribute_documentation_tags:
  "get_attribute_documentation w node d = Inr ent \<Longrightarrow> o_properties ent = []"
  by (auto simp: get_attribute_documentation_def Let_def Attribute_def bind_eq_Inr)

lemma field_tags_inherited:
  "field_tags (set_properties (o_properties c @ [''inherited'']) c) = field_tags c"
  by (simp add: field_tags_def)


lemma document_class_member_child:
  assumes "document_class_member rec w node attrs inh item st = Inr st'"
  shows "st' = st \<or>
    (\<exists>ent L1.
       st' = (add_child (fst st)
               (if fst item \<in> inh then set_properties (o_properties ent @ [''inherited'']) ent
                else ent), L1) \<and>
       (rec (ObjectNode_init w (snd item) (fst item) (Some node)) MNone (snd st) = Inr (ent, L1)
        \<or> get_method_documentation w (ObjectNode_init w (snd item) (fst item) (Some node))
             (Some [''classmethod'']) (snd st) = Inr (ent, L1)
        \<or> get_method_documentation w (ObjectNode_init w (snd item) (fst item) (Some node))
             (Some [''staticmethod'']) (snd st) = Inr (ent, L1)
        \<or> get_regular_method_documentation w (ObjectNode_init w (snd item) (fst item) (Some node))
             (snd st) = Inr (ent, L1)
        \<or> get_property_documentation w (ObjectNode_init w (snd item) (fst item) (Some node))
             (snd st) = Inr (ent, L1)
        \<or> (\<exists>data. get_attribute_documentation w
               (ObjectNode_init w (snd item) (fst item) (Some node)) (Some data) = Inr ent)))"
proof -
  let ?child = "ObjectNode_init w (snd item) (fst item) (Some node)"
  consider (cls) "is_class w ?child"
    | (cm) "\<not> is_class w ?child" "is_classmethod w ?child"
    | (sm) "\<not> is_class w ?child" "\<not> is_classmethod w ?child" "is_staticmethod w ?child"
    | (m) "\<not> is_class w ?child" "\<not> is_classmethod w ?child" "\<not> is_staticmethod w ?child"
        "is_method w ?child"
    | (p) "\<not> is_class w ?child" "\<not> is_classmethod w ?child" "\<not> is_staticmethod w ?child"
        "\<not> is_method w ?child" "is_property w ?child"
    | (a) "\<not> is_class w ?child" "\<not> is_classmethod w ?child" "\<not> is_staticmethod w ?child"
        "\<not> is_method w ?child" "\<not> is_property w ?child"
    by blast
  then show ?thesis
  proof cases
    case cls
    with assms obtain ent L1 where "rec ?child MNone (snd st) = Inr (ent, L1)"
      "st' = (add_child (fst st)
               (if fst item \<in> inh then set_properties (o_properties ent @ [''inherited'']) ent
                else ent), L1)"
      by (auto simp: document_class_member_def Let_def bind_eq_Inr split del: if_split)
    then show ?thesis by blast
  next
    case cm
    with assms obtain ent L1 where
      "get_method_documentation w ?child (Some [''classmethod'']) (snd st) = Inr (ent, L1)"
      "st' = (add_child (fst st)
               (if fst item \<in> inh then set_properties (o_properties ent @ [''inherited'']) ent
                else ent), L1)"
      by (auto simp: document_class_member_def Let_def bind_eq_Inr get_classmethod_documentation_def
          split del: if_split)
    then show ?thesis by blast
  next
    case sm
    with assms obtain ent L1 where
      "get_method_documentation w ?child (Some [''staticmethod'']) (snd st) = Inr (ent, L1)"
      "st' = (add_child (fst st)
               (if fst item \<in> inh then set_properties (o_properties ent @ [''inherited'']) ent
                else ent), L1)"
      by (auto simp: document_class_member_def Let_def bind_eq_Inr get_staticmethod_documentation_def
          split del: if_split)
    then show ?thesis by blast
  next
    case m
    with assms obtain ent L1 where
      "get_regular_method_documentation w ?child (snd st) = Inr (ent, L1)"
      "st' = (add_child (fst st)
               (if fst item \<in> inh then set_properties (o_properties ent @ [''inherited'']) ent
                else ent), L1)"
      by (auto simp: document_class_member_def Let_def bind_eq_Inr split del: if_split)
    then show ?thesis by blast
  next
    case p
    with assms obtain ent L1 where
      "get_property_documentation w ?child (snd st) = Inr (ent, L1)"
      "st' = (add_child (fst st)
               (if fst item \<in> inh then set_properties (o_properties ent @ [''inherited'']) ent
                else ent), L1)"
      by (auto simp: document_class_member_def Let_def bind_eq_Inr split del: if_split)
    then show ?thesis by blast
  next
    case a
    show ?thesis
    proof (cases "map_of attrs (fst item)")
      case None
      with a assms have "st' = st"
        by (simp add: document_class_member_def Let_def)
      then show ?thesis by simp
    next
      case (Some data)
      with a assms obtain ent where
        "get_attribute_documentation w ?child (Some data) = Inr ent"
        "st' = (add_child (fst st)
               (if fst item \<in> inh then set_properties (o_properties ent @ [''inherited'']) ent
                else ent), snd st)"
        by (auto simp: document_class_member_def Let_def bind_eq_Inr split del: if_split)
      then show ?thesis by blast
    qed
  qed
qed

lemma member_entity_tags:
  assumes "\<forall>n sm L r L'. rec n sm L = Inr (r, L') \<longrightarrow> field_tags r = {}"
    and "rec child MNone L = Inr (ent, L1)
        \<or> get_method_documentation w child (Some [''classmethod'']) L = Inr (ent, L1)
        \<or> get_method_documentation w child (Some [''staticmethod'']) L = Inr (ent, L1)
        \<or> get_regular_method_documentation w child L = Inr (ent, L1)
        \<or> get_property_documentation w child L = Inr (ent, L1)
        \<or> (\<exists>data. get_attribute_documentation w child (Some data) = Inr ent)"
  shows "field_tags ent = {}"
proof -
  have "field_tags ent = {}" if "rec child MNone L = Inr (ent, L1)"
    using that assms(1) by blast
  moreover have "field_tags ent = {}"
    if "get_method_documentation w child (Some [''classmethod'']) L = Inr (ent, L1)"
    using get_method_documentation_tags [OF that] by (auto simp: field_tags_def)
  moreover have "field_tags ent = {}"
    if "get_method_documentation w child (Some [''staticmethod'']) L = Inr (ent, L1)"
    using get_method_documentation_tags [OF that] by (auto simp: field_tags_def)
  moreover have "field_tags ent = {}"
    if "get_regular_method_documentation w child L = Inr (ent, L1)"
    using get_regular_method_documentation_tags [OF that] by (auto simp: field_tags_def)
  moreover have "field_tags ent = {}"
    if "get_property_documentation w child L = Inr (ent, L1)"
    using get_property_documentation_tags [OF that] by (auto simp: field_tags_def)
  moreover have "field_tags ent = {}"
    if "get_attribute_documentation w child (Some data) = Inr ent" for data
    using get_attribute_documentation_tags [OF that] by (simp add: field_tags_def)
  ultimately show ?thesis using assms(2) by blast
qed

lemma document_class_member_tags:
  assumes "document_class_member rec w node attrs inh item st = Inr st'"
    and "\<forall>n sm L r L'. rec n sm L = Inr (r, L') \<longrightarrow> field_tags r = {}"
    and "o_properties (fst st) = ps \<and> (\<forall>c \<in> set (o_children (fst st)). field_tags c = {})"
  shows "o_properties (fst st') = ps \<and> (\<forall>c \<in> set (o_children (fst st')). field_tags c = {})"
proof -
  from document_class_member_child [OF assms(1)] member_entity_tags [OF assms(2)]
  consider "st' = st"
    | ent L1 where "st' = (add_child (fst st)
               (if fst item \<in> inh then set_properties (o_properties ent @ [''inherited'']) ent
                else ent), L1)" "field_tags ent = {}"
    by blast
  then show ?thesis
  proof cases
    case 1
    then show ?thesis using assms(3) by simp
  next
    case 2
    then show ?thesis using assms(3) by (auto simp: field_tags_inherited)
  qed
qed

lemma field_loop_result:
  assumes "for_each body items root0 = Inr ent"
    and "\<forall>x \<in> set items. \<forall>r r'. body x r = Inr r' \<longrightarrow>
           r' = r \<or> (\<exists>c. r' = add_child r c \<and> field_tags c = {tag})"
  shows "o_properties ent = o_properties root0 \<and>
         (\<exists>new. o_children ent = o_children root0 @ new \<and> (\<forall>c \<in> set new. field_tags c = {tag}))"
proof (rule for_each_invariant [OF assms(1), where P = "\<lambda>r. o_properties r = o_properties root0 \<and>
         (\<exists>new. o_children r = o_children root0 @ new \<and> (\<forall>c \<in> set new. field_tags c = {tag}))"])
  show "o_properties root0 = o_properties root0 \<and>
      (\<exists>new. o_children root0 = o_children root0 @ new \<and> (\<forall>c \<in> set new. field_tags c = {tag}))"
    by simp
  show "\<forall>x \<in> set items. \<forall>t t'.
      o_properties t = o_properties root0 \<and>
      (\<exists>new. o_children t = o_children root0 @ new \<and> (\<forall>c \<in> set new. field_tags c = {tag})) \<longrightarrow>
      body x t = Inr t' \<longrightarrow>
      o_properties t' = o_properties root0 \<and>
      (\<exists>new. o_children t' = o_children root0 @ new \<and> (\<forall>c \<in> set new. field_tags c = {tag}))"
  proof (intro ballI allI impI)
    fix x t t'
    assume x: "x \<in> set items"
      and t: "o_properties t = o_properties root0 \<and>
        (\<exists>new. o_children t = o_children root0 @ new \<and> (\<forall>c \<in> set new. field_tags c = {tag}))"
      and b: "body x t = Inr t'"
    from t obtain new where new: "o_children t = o_children root0 @ new"
      "\<forall>c \<in> set new. field_tags c = {tag}" by blast
    from assms(2) x b consider "t' = t" | c where "t' = add_child t c" "field_tags c = {tag}"
      by blast
    then show "o_properties t' = o_properties root0 \<and>
        (\<exists>new. o_children t' = o_children root0 @ new \<and> (\<forall>c \<in> set new. field_tags c = {tag}))"
    proof cases
      case 1
      then show ?thesis using t by simp
    next
      case 2
      have "o_children t' = o_children root0 @ (new @ [c])" using 2(1) new(1) by simp
      moreover have "\<forall>d \<in> set (new @ [c]). field_tags d = {tag}" using new(2) 2(2) by simp
      ultimately show ?thesis using t 2(1) by (metis add_child_sel(2))
    qed
  qed
qed

lemma get_pydantic_field_documentation_tags:
  "get_pydantic_field_documentation w node = Inr c \<Longrightarrow> field_tags c = {''pydantic-field''}"
  by (auto simp: get_pydantic_field_documentation_def Let_def bind_eq_Inr field_tags_def
      Attribute_def)

lemma get_marshmallow_field_documentation_tags:
  "get_marshmallow_field_documentation w node = Inr c \<Longrightarrow> field_tags c = {''marshmallow-field''}"
  by (auto simp: get_marshmallow_field_documentation_def Let_def bind_eq_Inr field_tags_def
      Attribute_def)

lemma get_annotated_dataclass_field_tags:
  assumes "get_annotated_dataclass_field w node d = Inr c"
  shows "field_tags c = {''dataclass-field''}"
proof -
  let ?ad = "case d of None \<Rightarrow> default_attribute_data w node | Some x \<Rightarrow> x"
  from assms have "o_properties c = [''dataclass-field'']"
    by (cases "file_path w node"; cases "ad_docstring ?ad"; cases "ad_annotation ?ad")
       (auto simp: get_annotated_dataclass_field_def Let_def Attribute_def)
  then show ?thesis by (simp add: field_tags_def)
qed

lemma document_pydantic_field_step:
  assumes "document_pydantic_field w L node sm item r = Inr r'"
  shows "r' = r \<or> (\<exists>c. r' = add_child r c \<and> field_tags c = {''pydantic-field''})"
proof -
  from assms obtain selected where
    sel: "field_selected w L (obj node) sm ''__fields__'' (fst item) = Inr selected"
    by (auto simp: document_pydantic_field_def bind_eq_Inr)
  show ?thesis
  proof (cases selected)
    case False
    with assms sel show ?thesis by (simp add: document_pydantic_field_def)
  next
    case True
    with assms sel obtain c where
      "get_pydantic_field_documentation w (ObjectNode_init w (snd item) (fst item) (Some node)) = Inr c"
      "r' = add_child r c"
      by (auto simp: document_pydantic_field_def bind_eq_Inr)
    then show ?thesis using get_pydantic_field_documentation_tags by blast
  qed
qed

lemma document_marshmallow_field_step:
  assumes "document_marshmallow_field w L node sm item r = Inr r'"
  shows "r' = r \<or> (\<exists>c. r' = add_child r c \<and> field_tags c = {''marshmallow-field''})"
proof -
  from assms obtain selected where
    sel: "field_selected w L (obj node) sm ''_declared_fields'' (fst item) = Inr selected"
    by (auto simp: document_marshmallow_field_def bind_eq_Inr)
  show ?thesis
  proof (cases selected)
    case False
    with assms sel show ?thesis by (simp add: document_marshmallow_field_def)
  next
    case True
    with assms sel obtain c where
      "get_marshmallow_field_documentation w (ObjectNode_init w (snd item) (fst item) (Some node)) = Inr c"
      "r' = add_child r c"
      by (auto simp: document_marshmallow_field_def bind_eq_Inr)
    then show ?thesis using get_marshmallow_field_documentation_tags by blast
  qed
qed

lemma document_dataclass_field_step:
  assumes "document_dataclass_field w L node sm field r = Inr r'"
  shows "r' = r \<or> (\<exists>c. r' = add_child r c \<and> field_tags c = {''dataclass-field''})"
proof -
  from assms obtain selected where
    sel: "field_selected w L (obj node) sm ''__dataclass_fields__'' (field_name w field) = Inr selected"
    by (auto simp: document_dataclass_field_def bind_eq_Inr)
  show ?thesis
  proof (cases selected)
    case False
    with assms sel show ?thesis by (simp add: document_dataclass_field_def)
  next
    case True
    with assms sel obtain c where
      "get_annotated_dataclass_field w
         (ObjectNode_init w (field_type w field) (field_name w field) (Some node)) None = Inr c"
      "r' = add_child r c"
      by (auto simp: document_dataclass_field_def bind_eq_Inr)
    then show ?thesis using get_annotated_dataclass_field_tags by blast
  qed
qed


lemma document_structured_fields_result:
  assumes "document_structured_fields w L node sm direct_members all_members root1 = Inr ent"
  shows "o_properties ent =
           (if registry_declared L direct_members all_members ''__fields__'' then [''pydantic-model'']
            else if registry_declared L direct_members all_members ''_declared_fields''
              then [''marshmallow-model'']
            else if registry_declared L direct_members all_members ''__dataclass_fields__''
              then [''dataclass'']
            else o_properties root1)
         \<and> (\<exists>new. o_children ent = o_children root1 @ new \<and>
              (\<forall>c \<in> set new. field_tags c =
                 (if registry_declared L direct_members all_members ''__fields__''
                    then {''pydantic-field''}
                  else if registry_declared L direct_members all_members ''_declared_fields''
                    then {''marshmallow-field''}
                  else {''dataclass-field''})))"
proof -
  consider (pydantic) "registry_declared L direct_members all_members ''__fields__''"
    | (marshmallow) "\<not> registry_declared L direct_members all_members ''__fields__''"
        "registry_declared L direct_members all_members ''_declared_fields''"
    | (dataclass) "\<not> registry_declared L direct_members all_members ''__fields__''"
        "\<not> registry_declared L direct_members all_members ''_declared_fields''"
        "registry_declared L direct_members all_members ''__dataclass_fields__''"
    | (plain) "\<not> registry_declared L direct_members all_members ''__fields__''"
        "\<not> registry_declared L direct_members all_members ''_declared_fields''"
        "\<not> registry_declared L direct_members all_members ''__dataclass_fields__''"
    by blast
  then show ?thesis
  proof cases
    case pydantic
    with assms obtain registry where
      "for_each (document_pydantic_field w L node sm) (dict_items w registry)
         (set_properties [''pydantic-model''] root1) = Inr ent"
      by (auto simp: document_structured_fields_def bind_eq_Inr)
    moreover have "\<forall>x \<in> set (dict_items w registry). \<forall>r r'.
        document_pydantic_field w L node sm x r = Inr r' \<longrightarrow>
        r' = r \<or> (\<exists>c. r' = add_child r c \<and> field_tags c = {''pydantic-field''})"
      by (intro ballI allI impI) (rule document_pydantic_field_step)
    ultimately have "o_properties ent = o_properties (set_properties [''pydantic-model''] root1) \<and>
        (\<exists>new. o_children ent = o_children (set_properties [''pydantic-model''] root1) @ new \<and>
          (\<forall>c \<in> set new. field_tags c = {''pydantic-field''}))"
      by (rule field_loop_result)
    then show ?thesis using pydantic by simp
  next
    case marshmallow
    with assms obtain registry where
      "for_each (document_marshmallow_field w L node sm) (dict_items w registry)
         (set_properties [''marshmallow-model''] root1) = Inr ent"
      by (auto simp: document_structured_fields_def bind_eq_Inr)
    moreover have "\<forall>x \<in> set (dict_items w registry). \<forall>r r'.
        document_marshmallow_field w L node sm x r = Inr r' \<longrightarrow>
        r' = r \<or> (\<exists>c. r' = add_child r c \<and> field_tags c = {''marshmallow-field''})"
      by (intro ballI allI impI) (rule document_marshmallow_field_step)
    ultimately have "o_properties ent = o_properties (set_properties [''marshmallow-model''] root1) \<and>
        (\<exists>new. o_children ent = o_children (set_properties [''marshmallow-model''] root1) @ new \<and>
          (\<forall>c \<in> set new. field_tags c = {''marshmallow-field''}))"
      by (rule field_loop_result)
    then show ?thesis using marshmallow by simp
  next
    case dataclass
    with assms obtain registry where
      "for_each (document_dataclass_field w L node sm) (map snd (dict_items w registry))
         (set_properties [''dataclass''] root1) = Inr ent"
      by (auto simp: document_structured_fields_def bind_eq_Inr)
    moreover have "\<forall>x \<in> set (map snd (dict_items w registry)). \<forall>r r'.
        document_dataclass_field w L node sm x r = Inr r' \<longrightarrow>
        r' = r \<or> (\<exists>c. r' = add_child r c \<and> field_tags c = {''dataclass-field''})"
      by (intro ballI allI impI) (rule document_dataclass_field_step)
    ultimately have "o_properties ent = o_properties (set_properties [''dataclass''] root1) \<and>
        (\<exists>new. o_children ent = o_children (set_properties [''dataclass''] root1) @ new \<and>
          (\<forall>c \<in> set new. field_tags c = {''dataclass-field''}))"
      by (rule field_loop_result)
    then show ?thesis using dataclass by simp
  next
    case plain
    with assms have "ent = root1" by (simp add: document_structured_fields_def)
    then show ?thesis using plain by simp
  qed
qed

lemma class_documentation_tags:
  assumes "class_documentation rec w node sm L = Inr (ent, L')"
    and "\<forall>n sm L r L'. rec n sm L = Inr (r, L') \<longrightarrow> field_tags r = {}"
    and "\<forall>n sm L r L'. rec n sm L = Inr (r, L') \<longrightarrow> errors_extended L L'"
    and "sm \<noteq> MBool False"
  shows "o_properties ent =
           (if registry_declared L (dunder_dict w (obj node))
                 (dict_of (inspect_getmembers w (obj node))) ''__fields__''
              then [''pydantic-model'']
            else if registry_declared L (dunder_dict w (obj node))
                 (dict_of (inspect_getmembers w (obj node))) ''_declared_fields''
              then [''marshmallow-model'']
            else if registry_declared L (dunder_dict w (obj node))
                 (dict_of (inspect_getmembers w (obj node))) ''__dataclass_fields__''
              then [''dataclass'']
            else [])
         \<and> (\<forall>c \<in> set (o_children ent). field_tags c \<subseteq>
              (if registry_declared L (dunder_dict w (obj node))
                   (dict_of (inspect_getmembers w (obj node))) ''__fields__''
                 then {''pydantic-field''}
               else if registry_declared L (dunder_dict w (obj node))
                   (dict_of (inspect_getmembers w (obj node))) ''_declared_fields''
                 then {''marshmallow-field''}
               else if registry_declared L (dunder_dict w (obj node))
                   (dict_of (inspect_getmembers w (obj node))) ''__dataclass_fields__''
                 then {''dataclass-field''}
               else {}))"
proof -
  let ?direct = "dunder_dict w (obj node)" and ?all = "dict_of (inspect_getmembers w (obj node))"
  from assms(1,4) obtain fp attrs inh members root1 where
    loop: "for_each (document_class_member rec w node attrs inh) members
        (Class (name node) (dotted_path node) fp
           (Some (inspect_cleandoc w (case dunder_doc w (obj node) of None \<Rightarrow> [] | Some d \<Rightarrow> d))), L)
        = Inr (root1, L')"
    and fields: "document_structured_fields w L' node (or_set sm) ?direct ?all root1 = Inr ent"
    by (auto simp: class_documentation_def Let_def bind_eq_Inr)
  let ?P = "\<lambda>st. o_properties (fst st) = [] \<and> (\<forall>c \<in> set (o_children (fst st)). field_tags c = {})"
  have "?P (root1, L')"
  proof (rule for_each_invariant [OF loop, where P = ?P])
    show "?P (Class (name node) (dotted_path node) fp
           (Some (inspect_cleandoc w (case dunder_doc w (obj node) of None \<Rightarrow> [] | Some d \<Rightarrow> d))), L)"
      by (simp add: Class_def)
    show "\<forall>x \<in> set members. \<forall>t t'. ?P t \<longrightarrow>
        document_class_member rec w node attrs inh x t = Inr t' \<longrightarrow> ?P t'"
      using document_class_member_tags [OF _ assms(2)] by blast
  qed
  then have root1: "o_properties root1 = []" "\<forall>c \<in> set (o_children root1). field_tags c = {}"
    by simp_all
  have "errors_extended L L'"
    using class_documentation_errors [OF assms(1,3)] .
  then have same: "registry_declared L' ?direct ?all key = registry_declared L ?direct ?all key" for key
    by (simp add: registry_declared_def errors_extended_def)
  from document_structured_fields_result [OF fields] obtain new where
    props: "o_properties ent =
           (if registry_declared L ?direct ?all ''__fields__'' then [''pydantic-model'']
            else if registry_declared L ?direct ?all ''_declared_fields'' then [''marshmallow-model'']
            else if registry_declared L ?direct ?all ''__dataclass_fields__'' then [''dataclass'']
            else [])"
    and chs: "o_children ent = o_children root1 @ new"
    and new: "\<forall>c \<in> set new. field_tags c =
                 (if registry_declared L ?direct ?all ''__fields__'' then {''pydantic-field''}
                  else if registry_declared L ?direct ?all ''_declared_fields''
                    then {''marshmallow-field''}
                  else {''dataclass-field''})"
    unfolding same root1(1) by blast
  have plain: "new = []"
    if "\<not> registry_declared L ?direct ?all ''__fields__''"
      "\<not> registry_declared L ?direct ?all ''_declared_fields''"
      "\<not> registry_declared L ?direct ?all ''__dataclass_fields__''"
    using fields that chs by (simp add: document_structured_fields_def same)
  show ?thesis
  proof (intro conjI ballI)
    show "o_properties ent =
           (if registry_declared L ?direct ?all ''__fields__'' then [''pydantic-model'']
            else if registry_declared L ?direct ?all ''_declared_fields'' then [''marshmallow-model'']
            else if registry_declared L ?direct ?all ''__dataclass_fields__'' then [''dataclass'']
            else [])"
      by (rule props)
  next
    fix c
    assume "c \<in> set (o_children ent)"
    then consider "c \<in> set (o_children root1)" | "c \<in> set new" using chs by auto
    then show "field_tags c \<subseteq>
              (if registry_declared L ?direct ?all ''__fields__'' then {''pydantic-field''}
               else if registry_declared L ?direct ?all ''_declared_fields''
                 then {''marshmallow-field''}
               else if registry_declared L ?direct ?all ''__dataclass_fields__''
                 then {''dataclass-field''}
               else {})"
    proof cases
      case 1
      then show ?thesis using root1(2) by simp
    next
      case 2
      let ?pyd = "registry_declared L ?direct ?all ''__fields__''"
      let ?mar = "registry_declared L ?direct ?all ''_declared_fields''"
      let ?dc = "registry_declared L ?direct ?all ''__dataclass_fields__''"
      have eq: "field_tags c = (if ?pyd then {''pydantic-field''}
          else if ?mar then {''marshmallow-field''} else {''dataclass-field''})"
        using new 2 by blast
      have "?pyd \<or> ?mar \<or> ?dc" using plain 2 by fastforce
      then show ?thesis unfolding eq by (cases ?pyd; cases ?mar; cases ?dc) simp_all
    qed
  qed
qed

lemma class_documentation_root_tags:
  assumes "class_documentation rec w node sm L = Inr (ent, L')"
    and "\<forall>n sm L r L'. rec n sm L = Inr (r, L') \<longrightarrow> field_tags r = {}"
    and "\<forall>n sm L r L'. rec n sm L = Inr (r, L') \<longrightarrow> errors_extended L L'"
  shows "field_tags ent = {}"
proof (cases "sm = MBool False")
  case True
  with assms(1) have "o_properties ent = []"
    by (auto simp: class_documentation_def Let_def bind_eq_Inr Class_def)
  then show ?thesis by (simp add: field_tags_def)
next
  case False
  from class_documentation_tags [OF assms False] show ?thesis
    by (auto simp: field_tags_def split: if_splits)
qed

lemma get_class_documentation_root_tags:
  "get_class_documentation depth w node sm L = Inr (ent, L') \<Longrightarrow> field_tags ent = {}"
proof (induction depth arbitrary: node sm L ent L')
  case 0
  then show ?case by simp
next
  case (Suc depth)
  have tags: "\<forall>n sm L r L'. get_class_documentation depth w n sm L = Inr (r, L') \<longrightarrow> field_tags r = {}"
    using Suc.IH by blast
  have errs: "\<forall>n sm L r L'. get_class_documentation depth w n sm L = Inr (r, L')
      \<longrightarrow> errors_extended L L'"
    using get_class_documentation_errors by blast
  from Suc.prems show ?case
    using class_documentation_root_tags [OF _ tags errs] by simp
qed

text \<open>
  C7. Let \<^verbatim>\<open>get_class_documentation\<close> return a Class entity for a class whose members
  are documented. A registry counts as declared when the class's own \<^verbatim>\<open>__dict__\<close> has
  it, or inherited members are selected and it is among all members. The properties of
  the entity are exactly one tag, that of the first declared convention in the order
  pydantic (\<^verbatim>\<open>__fields__\<close>), marshmallow (\<^verbatim>\<open>_declared_fields\<close>), dataclass
  (\<^verbatim>\<open>__dataclass_fields__\<close>), or no tag when none is declared; and no child of the
  entity carries the field tag of another convention.
\<close>

theorem structured_declaration_priority:
  assumes "get_class_documentation depth w node select_members L = Inr (ent, L')"
    and "select_members \<noteq> MBool False"
  shows "o_properties ent =
           (if registry_declared L (dunder_dict w (obj node))
                 (dict_of (inspect_getmembers w (obj node))) ''__fields__''
              then [''pydantic-model'']
            else if registry_declared L (dunder_dict w (obj node))
                 (dict_of (inspect_getmembers w (obj node))) ''_declared_fields''
              then [''marshmallow-model'']
            else if registry_declared L (dunder_dict w (obj node))
                 (dict_of (inspect_getmembers w (obj node))) ''__dataclass_fields__''
              then [''dataclass'']
            else [])
         \<and> (\<forall>c \<in> set (o_children ent). field_tags c \<subseteq>
              (if registry_declared L (dunder_dict w (obj node))
                   (dict_of (inspect_getmembers w (obj node))) ''__fields__''
                 then {''pydantic-field''}
               else if registry_declared L (dunder_dict w (obj node))
                   (dict_of (inspect_getmembers w (obj node))) ''_declared_fields''
                 then {''marshmallow-field''}
               else if registry_declared L (dunder_dict w (obj node))
                   (dict_of (inspect_getmembers w (obj node))) ''__dataclass_fields__''
                 then {''dataclass-field''}
               else {}))"
proof (cases depth)
  case 0
  with assms(1) show ?thesis by simp
next
  case (Suc d)
  have tags: "\<forall>n sm L r L'. get_class_documentation d w n sm L = Inr (r, L') \<longrightarrow> field_tags r = {}"
    using get_class_documentation_root_tags by blast
  have errs: "\<forall>n sm L r L'. get_class_documentation d w n sm L = Inr (r, L')
      \<longrightarrow> errors_extended L L'"
    using get_class_documentation_errors by blast
  from assms(1) Suc have "class_documentation (get_class_documentation d w) w node select_members L
      = Inr (ent, L')" by simp
  from class_documentation_tags [OF this tags errs assms(2)] show ?thesis .
qed

lemma model_world_class:
  "get_class_documentation 1 model_world (Node 1 ''K'' (Some (Node 0 ''mod'' None))) MNone
       (Loader_init [] False)
     = Inr (Object ClassObject ''K'' ''mod.K'' ''/src/mod.py'' (Some []) [''pydantic-model''] None None
              None
              [Object AttributeObject ''x'' ''mod.K.x'' ''/src/mod.py'' None
                 [''pydantic-field'', ''required''] None None (Some 23) []],
            Loader_init [] False)"
  by code_simp

text \<open>The theorem at the class \<^verbatim>\<open>K\<close>, which declares both \<^verbatim>\<open>__fields__\<close> and
  \<^verbatim>\<open>_declared_fields\<close>: it is tagged as a pydantic model only, and its only field is the
  pydantic field \<^verbatim>\<open>x\<close>.\<close>

theorem structured_declaration_priority_witness:
  "get_class_documentation 1 model_world (Node 1 ''K'' (Some (Node 0 ''mod'' None))) MNone
       (Loader_init [] False)
     = Inr (Object ClassObject ''K'' ''mod.K'' ''/src/mod.py'' (Some []) [''pydantic-model''] None None
              None
              [Object AttributeObject ''x'' ''mod.K.x'' ''/src/mod.py'' None
                 [''pydantic-field'', ''required''] None None (Some 23) []],
            Loader_init [] False)
   \<and> registry_declared (Loader_init [] False) (dunder_dict model_world 1)
         (dict_of (inspect_getmembers model_world 1)) ''__fields__''
   \<and> registry_declared (Loader_init [] False) (dunder_dict model_world 1)
         (dict_of (inspect_getmembers model_world 1)) ''_declared_fields''
   \<and> o_properties (Object ClassObject ''K'' ''mod.K'' ''/src/mod.py'' (Some []) [''pydantic-model''] None
         None None
         [Object AttributeObject ''x'' ''mod.K.x'' ''/src/mod.py'' None
            [''pydantic-field'', ''required''] None None (Some (23::nat)) []]) = [''pydantic-model'']
   \<and> map field_tags (o_children (Object ClassObject ''K'' ''mod.K'' ''/src/mod.py'' (Some [])
         [''pydantic-model''] None None None
         [Object AttributeObject ''x'' ''mod.K.x'' ''/src/mod.py'' None
            [''pydantic-field'', ''required''] None None (Some (23::nat)) []])) = [{''pydantic-field''}]"
proof -
  have p: "registry_declared (Loader_init [] False) (dunder_dict model_world 1)
         (dict_of (inspect_getmembers model_world 1)) ''__fields__''"
    and m: "registry_declared (Loader_init [] False) (dunder_dict model_world 1)
         (dict_of (inspect_getmembers model_world 1)) ''_declared_fields''"
    by (simp_all add: registry_declared_def dict_keys_def model_world_def)
  have ne: "MNone \<noteq> MBool False" by simp
  from structured_declaration_priority [OF model_world_class ne] p m model_world_class
  show ?thesis by (simp add: field_tags_def)
qed

section \<open>Properties of the entry point\<close>

lemma class_documentation_no_members:
  "class_documentation rec w node (MSet {}) L = class_documentation rec w node MNone L"
  by (simp add: class_documentation_def or_set_def)

lemma module_documentation_no_members:
  "module_documentation rec_class rec_module w node (MSet {}) L
     = module_documentation rec_class rec_module w node MNone L"
  by (simp add: module_documentation_def or_set_def)

lemma get_class_documentation_no_members:
  "get_class_documentation depth w node (MSet {}) L = get_class_documentation depth w node MNone L"
  by (cases depth) (simp_all add: class_documentation_no_members)

lemma get_module_documentation_no_members:
  "get_module_documentation depth w node (MSet {}) L = get_module_documentation depth w node MNone L"
  by (cases depth) (simp_all add: module_documentation_no_members)

text \<open>
  C10. \<^verbatim>\<open>get_object_documentation\<close> with \<^verbatim>\<open>members=True\<close> returns what it returns with
  \<^verbatim>\<open>members=None\<close>, and with the empty set, for every interpreter, path, loader and
  depth: \<^verbatim>\<open>True\<close> becomes the empty set before the dispatch, and the builders turn
  \<^verbatim>\<open>None\<close> into the empty set as well. With the empty set, \<open>select\<close> is decided by the
  filters.
\<close>

theorem members_True_is_None:
  "get_object_documentation depth w L dotted (MBool True)
     = get_object_documentation depth w L dotted MNone
   \<and> get_object_documentation depth w L dotted (MBool True)
     = get_object_documentation depth w L dotted (MSet {})
   \<and> select w L nm (or_set (MSet {})) = Inr (\<not> filter_name_out w L nm)"
  by (simp add: get_object_documentation_def Let_def get_class_documentation_no_members
      get_module_documentation_no_members or_set_def select_def cong: if_cong)

lemma filter_world_module:
  "get_object_documentation 2 filter_world (Loader_init [''!^_''] False) ''mod'' MNone
     = Inr (Object ModuleObject ''mod'' ''mod'' ''/src/mod.py'' None []
              (Some (Source ''def _g(): pass\<newline>def f(): pass\<newline>'' 1)) None None
              [Object FunctionObject ''f'' ''mod.f'' ''/src/mod.py'' None []
                 (Some (Source ''def f(): pass'' 2)) (Some 20) None []],
            Loader_init [''!^_''] False)"
  by code_simp

text \<open>The theorem at the module \<^verbatim>\<open>mod\<close> with the filter \<^verbatim>\<open>!^_\<close>: with \<^verbatim>\<open>members=True\<close>
  the function \<^verbatim>\<open>_g\<close> of the root module is filtered out.\<close>

theorem members_True_is_None_witness:
  "get_object_documentation 2 filter_world (Loader_init [''!^_''] False) ''mod'' (MBool True)
     = Inr (Object ModuleObject ''mod'' ''mod'' ''/src/mod.py'' None []
              (Some (Source ''def _g(): pass\<newline>def f(): pass\<newline>'' 1)) None None
              [Object FunctionObject ''f'' ''mod.f'' ''/src/mod.py'' None []
                 (Some (Source ''def f(): pass'' 2)) (Some 20) None []],
            Loader_init [''!^_''] False)
   \<and> select filter_world (Loader_init [''!^_''] False) ''_g'' (or_set (MSet {})) = Inr False"
proof -
  have "filter_name_out filter_world (Loader_init [''!^_''] False) ''_g''"
    by code_simp
  with members_True_is_None [of 2 filter_world "Loader_init [''!^_''] False" "''mod''" "''_g''"]
    filter_world_module
  show ?thesis by simp
qed

end
